theory Spec2Isabelle
  imports Complex_Main "HOL-Library.Char_ord" "HOL-Library.List_Lexorder"
begin

section \<open>Reader and writer for WN-LMF documents (wn/lmf.py)\<close>

text \<open>
  A shallow embedding of \<^verbatim>\<open>src/wn/lmf.py\<close>. Python \<^verbatim>\<open>bytes\<close> are lists of
  \<^typ>\<open>char\<close> (one char per byte); a Python \<^verbatim>\<open>str\<close> is represented by its UTF-8
  encoding, so decoding a byte string is checking that it is well-formed UTF-8. Every
  exception the code can raise is a value of \<open>error\<close>, and a function that can raise
  returns \<open>error + 'a\<close>.
\<close>

subsection \<open>Exceptions\<close>

datatype error =
    LMFError string
  | KeyError string
  | IndexError
  | TypeError
  | AttributeError
  | StopIteration
  | ParseError
  | UnicodeDecodeError

subsection \<open>Module constants\<close>

definition XMLDECL :: string where
  "XMLDECL = ''<?xml version=\"1.0\" encoding=\"UTF-8\"?>''"

definition DOCTYPE :: "string \<Rightarrow> string" where
  "DOCTYPE schema = ''<!DOCTYPE LexicalResource SYSTEM \"'' @ schema @ ''\">''"

definition SCHEMAS :: "(string \<times> string) list" where
  "SCHEMAS =
     [(''1.0'', ''http://globalwordnet.github.io/schemas/WN-LMF-1.0.dtd''),
      (''1.1'', ''http://globalwordnet.github.io/schemas/WN-LMF-1.1.dtd'')]"

definition DOCTYPES :: "(string \<times> string) list" where
  "DOCTYPES = map (\<lambda>(version, schema). (DOCTYPE schema, version)) SCHEMAS"

definition DC_URIS :: "(string \<times> string) list" where
  "DC_URIS =
     [(''1.0'', ''http://purl.org/dc/elements/1.1/''),
      (''1.1'', ''http://globalwordnet.github.io/schemas/dc/'')]"

definition DC_ATTRS :: "string list" where
  "DC_ATTRS =
     [''contributor'', ''coverage'', ''creator'', ''date'', ''description'', ''format'',
      ''identifier'', ''publisher'', ''relation'', ''rights'', ''source'', ''subject'',
      ''title'', ''type'']"

definition DC_QNAME_PAIRS :: "(string \<times> (string \<times> string) list) list" where
  "DC_QNAME_PAIRS =
     map (\<lambda>(version, uri). (version, map (\<lambda>attr. (''{'' @ uri @ ''}'' @ attr, attr)) DC_ATTRS))
       DC_URIS"

text \<open>\<^verbatim>\<open>d[key]\<close> on a dictionary held as an association list: a missing key raises.\<close>

definition getitem :: "(string \<times> 'a) list \<Rightarrow> string \<Rightarrow> error + 'a" where
  "getitem d k = (case map_of d k of None \<Rightarrow> Inl (KeyError k) | Some v \<Rightarrow> Inr v)"

subsection \<open>Version Resolver: \<^verbatim>\<open>_read_header\<close> and \<^verbatim>\<open>is_lmf\<close>\<close>

text \<open>
  \<^verbatim>\<open>fh.readline()\<close> on a binary file: the bytes up to and including the first
  newline (all of them when there is none), and the file position after them.
\<close>

definition readline :: "string \<Rightarrow> string \<times> string" where
  "readline fh =
     (case dropWhile (\<lambda>c. c \<noteq> CHR 0x0A) fh of
        [] \<Rightarrow> (fh, [])
      | nl # rest \<Rightarrow> (takeWhile (\<lambda>c. c \<noteq> CHR 0x0A) fh @ [nl], rest))"

text \<open>\<^verbatim>\<open>bytes.rstrip()\<close> removes trailing ASCII whitespace.\<close>

definition isspace :: "char \<Rightarrow> bool" where
  "isspace c = (c \<in> set [CHR 0x20, CHR 0x09, CHR 0x0A, CHR 0x0D, CHR 0x0B, CHR 0x0C])"

definition rstrip :: "string \<Rightarrow> string" where
  "rstrip bs = rev (dropWhile isspace (rev bs))"

text \<open>\<^verbatim>\<open>bs.replace(old, new)\<close> for single bytes.\<close>

definition replace :: "char \<Rightarrow> char \<Rightarrow> string \<Rightarrow> string" where
  "replace old new bs = map (\<lambda>c. if c = old then new else c) bs"

text \<open>
  \<^verbatim>\<open>bytes.decode('utf-8')\<close>: the strict decoder accepts exactly the well-formed
  sequences of the Unicode standard (no overlong forms, no surrogates, nothing above
  U+10FFFF) and raises \<^verbatim>\<open>UnicodeDecodeError\<close> otherwise.
\<close>

definition cont :: "nat \<Rightarrow> bool" where
  "cont b = (0x80 \<le> b \<and> b \<le> 0xBF)"

fun valid_utf8 :: "nat list \<Rightarrow> bool" where
  "valid_utf8 [] = True"
| "valid_utf8 (a # bs) =
     (if a < 0x80 then valid_utf8 bs
      else if 0xC2 \<le> a \<and> a \<le> 0xDF then
        (case bs of b # r \<Rightarrow> cont b \<and> valid_utf8 r | _ \<Rightarrow> False)
      else if 0xE0 \<le> a \<and> a \<le> 0xEF then
        (case bs of
           b # c # r \<Rightarrow>
             (if a = 0xE0 then 0xA0 \<le> b \<and> b \<le> 0xBF
              else if a = 0xED then 0x80 \<le> b \<and> b \<le> 0x9F
              else cont b) \<and> cont c \<and> valid_utf8 r
         | _ \<Rightarrow> False)
      else if 0xF0 \<le> a \<and> a \<le> 0xF4 then
        (case bs of
           b # c # d # r \<Rightarrow>
             (if a = 0xF0 then 0x90 \<le> b \<and> b \<le> 0xBF
              else if a = 0xF4 then 0x80 \<le> b \<and> b \<le> 0x8F
              else cont b) \<and> cont c \<and> cont d \<and> valid_utf8 r
         | _ \<Rightarrow> False)
      else False)"

definition decode_utf8 :: "string \<Rightarrow> error + string" where
  "decode_utf8 bs = (if valid_utf8 (map of_char bs) then Inr bs else Inl UnicodeDecodeError)"

definition read_header :: "string \<Rightarrow> error + string" where
  "read_header fh =
     (let (line1, fh1) = readline fh;
          xmldecl = replace (CHR 0x27) (CHR 0x22) (rstrip line1);
          (line2, fh2) = readline fh1;
          doctype = replace (CHR 0x27) (CHR 0x22) (rstrip line2)
      in if xmldecl \<noteq> XMLDECL then Inl (LMFError ''invalid or missing XML declaration'')
         else case decode_utf8 doctype of
           Inl e \<Rightarrow> Inl e
         | Inr doctype_decoded \<Rightarrow>
             (case map_of DOCTYPES doctype_decoded of
                None \<Rightarrow> Inl (LMFError ''invalid or missing DOCTYPE declaration'')
              | Some version \<Rightarrow> Inr version))"

text \<open>
  \<^verbatim>\<open>is_lmf\<close>. The helper \<^verbatim>\<open>wn._util.is_xml\<close> is imported from another module; it is
  a parameter here, a predicate on the file's bytes. Only \<^verbatim>\<open>LMFError\<close> is caught.
\<close>

definition is_lmf :: "(string \<Rightarrow> bool) \<Rightarrow> string \<Rightarrow> error + bool" where
  "is_lmf is_xml source =
     (if \<not> is_xml source then Inr False
      else case read_header source of
        Inl (LMFError msg) \<Rightarrow> Inr False
      | Inl e \<Rightarrow> Inl e
      | Inr version \<Rightarrow> Inr True)"

text \<open>
  The two header lines as \<^verbatim>\<open>_read_header\<close> reads and normalises them: trailing
  whitespace stripped, single quotes turned into double quotes.
\<close>

definition norm_line :: "string \<Rightarrow> string" where
  "norm_line l = replace (CHR 0x27) (CHR 0x22) (rstrip l)"
definition header_line1 :: "string \<Rightarrow> string" where
  "header_line1 fh = fst (readline fh)"
definition header_line2 :: "string \<Rightarrow> string" where
  "header_line2 fh = fst (readline (snd (readline fh)))"

text \<open>A well-formed header of schema version 1.1.\<close>

definition good_header :: string where
  "good_header = XMLDECL @ CHR 0x0A #
     DOCTYPE ''http://globalwordnet.github.io/schemas/WN-LMF-1.1.dtd'' @ [CHR 0x0A]"


subsection \<open>XML elements and parser events\<close>

type_synonym attrs = "(string \<times> string) list"

datatype Element = Element (elem_tag: string) (elem_attrib: attrs) (elem_text: "string option")

text \<open>
  The events \<^verbatim>\<open>ET.iterparse\<close> yields for a file. When the tokenizer meets ill-formed XML,
  the parser queues its \<^verbatim>\<open>ParseError\<close> behind the events read so far and raises it when
  that place of the queue is reached: \<open>Malformed\<close> stands for the queued error.
\<close>

datatype event = Start Element | End Element | Malformed

datatype xml = Node Element "xml list"

fun iterparse :: "xml \<Rightarrow> event list" where
  "iterparse (Node e children) = Start e # concat (map iterparse children) @ [End e]"

subsection \<open>Data model\<close>

text \<open>
  A Python \<^verbatim>\<open>float\<close>: a finite value, read as the real number it denotes, an infinity,
  or not-a-number.
\<close>

datatype pyfloat = Finite real | PosInf | NegInf | NaN

datatype pyval = PyStr string | PyFloat pyfloat

type_synonym Metadata = "pyval option list"

definition Metadata_fields :: "string list" where
  "Metadata_fields = DC_ATTRS @ [''status'', ''note'', ''confidence'']"

record Count =
  count_value :: int
  count_meta :: "Metadata option"

record SyntacticBehaviour =
  sb_frame :: string
  sb_senses :: "string list"

record SenseRelation =
  srel_target :: string
  srel_type :: string
  srel_meta :: "Metadata option"

record SynsetRelation =
  ssrel_target :: string
  ssrel_type :: string
  ssrel_meta :: "Metadata option"

record Example =
  ex_text :: "string option"
  ex_language :: "string option"
  ex_meta :: "Metadata option"

record ILIDefinition =
  ilidef_text :: "string option"
  ilidef_meta :: "Metadata option"

record Definition =
  def_text :: "string option"
  def_language :: "string option"
  def_source_sense :: "string option"
  def_meta :: "Metadata option"

record Synset =
  synset_id :: string
  synset_ili :: string
  synset_pos :: string
  synset_definitions :: "Definition list"
  synset_ili_definition :: "ILIDefinition option"
  synset_relations :: "SynsetRelation list"
  synset_examples :: "Example list"
  synset_lexicalized :: bool
  synset_external :: bool
  synset_meta :: "Metadata option"

record Sense =
  sense_id :: string
  sense_synset :: string
  sense_relations :: "SenseRelation list"
  sense_examples :: "Example list"
  sense_counts :: "Count list"
  sense_lexicalized :: bool
  sense_adjposition :: string
  sense_external :: bool
  sense_meta :: "Metadata option"

record Tag =
  tag_text :: "string option"
  tag_category :: string

record Form =
  form_form :: string
  form_script :: "string option"
  form_tags :: "Tag list"

record Lemma =
  lemma_form :: string
  lemma_pos :: string
  lemma_script :: "string option"
  lemma_tags :: "Tag list"

record LexicalEntry =
  entry_id :: string
  entry_lemma :: "Lemma option"
  entry_forms :: "Form list"
  entry_senses :: "Sense list"
  entry_external :: bool
  entry_meta :: "Metadata option"

record Dependency =
  dep_id :: string
  dep_version :: string
  dep_url :: "string option"

record Lexicon =
  lex_id :: string
  lex_label :: string
  lex_language :: string
  lex_email :: string
  lex_license :: string
  lex_version :: string
  lex_url :: "string option"
  lex_citation :: "string option"
  lex_lexical_entries :: "LexicalEntry list"
  lex_synsets :: "Synset list"
  lex_syntactic_behaviours :: "SyntacticBehaviour list"
  lex_extends :: "Dependency option"
  lex_requires :: "Dependency list"
  lex_meta :: "Metadata option"

type_synonym LexicalResource = "Lexicon list"

subsection \<open>What the module takes from outside\<close>

text \<open>
  The vocabularies of \<^verbatim>\<open>wn.constants\<close> are imported, not defined in this file; and
  \<^verbatim>\<open>float()\<close> and \<^verbatim>\<open>int()\<close> on text, \<^verbatim>\<open>str()\<close> of a float, \<^verbatim>\<open>str.lower()\<close>,
  \<^verbatim>\<open>str.split()\<close> (both follow the Unicode character database) and the order in which a
  \<^verbatim>\<open>set\<close> is iterated are the interpreter's. They are parameters of the model:
  \<open>py_float s\<close> and \<open>py_int s\<close> are \<open>None\<close> where the conversion raises
  \<^verbatim>\<open>ValueError\<close>; \<open>set_order xs\<close> is the order in which the set built from \<open>xs\<close> is
  iterated (some arrangement of its distinct elements).
\<close>

record env =
  SENSE_RELATIONS :: "string list"
  SENSE_SYNSET_RELATIONS :: "string list"
  SYNSET_RELATIONS :: "string list"
  ADJPOSITIONS :: "string list"
  PARTS_OF_SPEECH :: "string list"
  py_float :: "string \<Rightarrow> pyfloat option"
  py_int :: "string \<Rightarrow> int option"
  str_float :: "pyfloat \<Rightarrow> string"
  py_lower :: "string \<Rightarrow> string"
  py_split :: "string \<Rightarrow> string list"
  set_order :: "string list \<Rightarrow> string list"

subsection \<open>Diagnostics\<close>

text \<open>
  \<^verbatim>\<open>warnings.warn(..., LMFWarning)\<close> appends a diagnostic to the list the loader carries
  along; it never changes control flow. A diagnostic records what its message is built from.
\<close>

datatype LMFWarning =
    NotOneOf string "string list"
  | CountNotInteger "string option"
  | ConfidenceNotInRange pyval

subsection \<open>The lookahead cursor \<^verbatim>\<open>XMLEventIterator\<close>\<close>

text \<open>
  The cursor is the list of events not yet consumed; its head is the lookahead. The loader's
  state is the cursor together with the diagnostics issued so far. \<^verbatim>\<open>__next__\<close> returns
  the event held and fetches the one after it, so the tokenizer's error is raised when the
  event before it is consumed (or when the cursor is built, if no event precedes it: nothing
  happens between that and the first \<^verbatim>\<open>next\<close>).
\<close>

type_synonym state = "event list \<times> LMFWarning list"

definition warn :: "LMFWarning \<Rightarrow> state \<Rightarrow> state" where
  "warn w st = (fst st, snd st @ [w])"

fun join :: "string \<Rightarrow> string list \<Rightarrow> string" where
  "join sep [] = []"
| "join sep [x] = x"
| "join sep (x # y # ys) = x @ sep @ join sep (y # ys)"

definition next_ev :: "state \<Rightarrow> error + (event \<times> state)" where
  "next_ev st =
     (case fst st of
        [] \<Rightarrow> Inl StopIteration
      | ev # evs \<Rightarrow>
          if ev = Malformed \<or> (evs \<noteq> [] \<and> hd evs = Malformed) then Inl ParseError
          else Inr (ev, (evs, snd st)))"

definition starts :: "string list \<Rightarrow> state \<Rightarrow> bool" where
  "starts tags st =
     (case fst st of
        Start elem # evs \<Rightarrow> elem_tag elem \<in> set tags
      | _ \<Rightarrow> False)"

definition start_ev :: "string list \<Rightarrow> state \<Rightarrow> error + (Element \<times> state)" where
  "start_ev tags st =
     (case next_ev st of
        Inl e \<Rightarrow> Inl e
      | Inr (End elem, st') \<Rightarrow>
          Inl (LMFError (''expected <'' @ join ''|'' tags @ ''>, got </'' @ elem_tag elem @ ''>''))
      | Inr (Start elem, st') \<Rightarrow>
          if elem_tag elem \<notin> set tags then
            Inl (LMFError (''expected <'' @ join ''|'' tags @ ''>, got <'' @ elem_tag elem @ ''>''))
          else Inr (elem, st')
      | Inr (Malformed, st') \<Rightarrow> Inl ParseError)"

definition end_ev :: "string list \<Rightarrow> state \<Rightarrow> error + (Element \<times> state)" where
  "end_ev tags st =
     (case next_ev st of
        Inl e \<Rightarrow> Inl e
      | Inr (Start elem, st') \<Rightarrow>
          Inl (LMFError (''expected </'' @ join ''|'' tags @ ''>, got <'' @ elem_tag elem @ ''>''))
      | Inr (End elem, st') \<Rightarrow>
          if elem_tag elem \<notin> set tags then
            Inl (LMFError (''expected </'' @ join ''|'' tags @ ''>, got </'' @ elem_tag elem @ ''>''))
          else Inr (elem, st')
      | Inr (Malformed, st') \<Rightarrow> Inl ParseError)"

subsection \<open>Attribute values: \<^verbatim>\<open>_get_literal\<close>, \<^verbatim>\<open>_get_bool\<close>, \<^verbatim>\<open>_get_metadata\<close>\<close>

definition get_literal :: "string option \<Rightarrow> string list \<Rightarrow> state \<Rightarrow> string \<times> state" where
  "get_literal v choices st =
     (case v of
        None \<Rightarrow> ([], st)
      | Some s \<Rightarrow> (s, if s \<notin> set choices then warn (NotOneOf s choices) st else st))"

definition get_bool :: "env \<Rightarrow> string \<Rightarrow> state \<Rightarrow> bool \<times> state" where
  "get_bool E v st =
     (case get_literal (Some (py_lower E v)) [''true'', ''false''] st of
        (s, st') \<Rightarrow> (s = ''true'', st'))"

text \<open>\<^verbatim>\<open>0 <= value <= 1\<close> on a float: false for an infinity and for not-a-number.\<close>

definition in_unit_interval :: "pyfloat \<Rightarrow> bool" where
  "in_unit_interval x = (case x of Finite r \<Rightarrow> 0 \<le> r \<and> r \<le> 1 | _ \<Rightarrow> False)"

text \<open>
  \<^verbatim>\<open>_get_metadata\<close>: the 14 qualified descriptive attributes of the schema version, then
  \<^verbatim>\<open>status\<close>, \<^verbatim>\<open>note\<close> and the confidence score; \<^verbatim>\<open>Metadata(*metas)\<close> when any of the
  17 is not \<^verbatim>\<open>None\<close>.
\<close>

definition get_metadata ::
  "env \<Rightarrow> attrs \<Rightarrow> string \<Rightarrow> state \<Rightarrow> error + (Metadata option \<times> state)" where
  "get_metadata E attrs version st =
     (case getitem DC_QNAME_PAIRS version of
        Inl e \<Rightarrow> Inl e
      | Inr pairs \<Rightarrow>
          let metas = map (\<lambda>(qname, attr). map_option PyStr (map_of attrs qname)) pairs
                      @ [map_option PyStr (map_of attrs ''status'')]
                      @ [map_option PyStr (map_of attrs ''note'')];
              (conf, st') =
                (case map_of attrs ''confidenceScore'' of
                   None \<Rightarrow> (None, st)
                 | Some s \<Rightarrow>
                     (case py_float E s of
                        None \<Rightarrow> (Some (PyStr s), warn (ConfidenceNotInRange (PyStr s)) st)
                      | Some x \<Rightarrow>
                          if in_unit_interval x then (Some (PyFloat x), st)
                          else (Some (PyFloat x), warn (ConfidenceNotInRange (PyFloat x)) st)));
              metas = metas @ [conf]
          in if \<exists>meta \<in> set metas. meta \<noteq> None then Inr (Some metas, st')
             else Inr (None, st'))"

subsection \<open>Lightweight Scanner: \<^verbatim>\<open>scan_lexicons\<close>\<close>

text \<open>
  Each result is the dictionary of the resource's attributes with the keys \<^verbatim>\<open>counts\<close> and
  \<^verbatim>\<open>extends\<close> set by the scanner; here a record whose \<open>info_attrs\<close> are the other keys.
  The handler sees start tags only. The tokenizer's \<^verbatim>\<open>ExpatError\<close> is the event
  \<open>Malformed\<close>, or, for a stream that stops before it, \<open>wellformed\<close> being false.
\<close>

record info =
  info_attrs :: attrs
  info_counts :: "string \<rightharpoonup> nat"
  info_extends :: "(string \<times> string) option"

definition scan_start :: "info list \<Rightarrow> string \<Rightarrow> attrs \<Rightarrow> error + info list" where
  "scan_start infos name attrs =
     (if name \<in> set [''Lexicon'', ''LexiconExtension''] then
        Inr (infos @ [\<lparr>info_attrs = filter (\<lambda>(k, v). k \<noteq> ''counts'') attrs,
                        info_counts = Map.empty, info_extends = None\<rparr>])
      else if name = ''Extends'' then
        (case getitem attrs ''id'' of
           Inl e \<Rightarrow> Inl e
         | Inr i \<Rightarrow>
             (case getitem attrs ''version'' of
                Inl e \<Rightarrow> Inl e
              | Inr v \<Rightarrow>
                  if infos = [] then Inl IndexError
                  else Inr (butlast infos @
                         [(last infos)\<lparr>info_attrs :=
                              filter (\<lambda>(k, v). k \<noteq> ''extends'') (info_attrs (last infos)),
                            info_extends := Some (i, v)\<rparr>])))
      else if infos \<noteq> [] then
        Inr (butlast infos @
          [(last infos)\<lparr>info_counts := (info_counts (last infos))
              (name \<mapsto> (case info_counts (last infos) name of None \<Rightarrow> 0 | Some c \<Rightarrow> c) + 1)\<rparr>])
      else Inr infos)"

fun scan_events :: "info list \<Rightarrow> event list \<Rightarrow> error + info list" where
  "scan_events infos [] = Inr infos"
| "scan_events infos (End elem # evs) = scan_events infos evs"
| "scan_events infos (Start elem # evs) =
     (case scan_start infos (elem_tag elem) (elem_attrib elem) of
        Inl e \<Rightarrow> Inl e
      | Inr infos' \<Rightarrow> scan_events infos' evs)"
| "scan_events infos (Malformed # evs) = Inl (LMFError ''invalid or ill-formed WN-LMF file'')"

definition scan_lexicons :: "bool \<Rightarrow> event list \<Rightarrow> error + info list" where
  "scan_lexicons wellformed evs =
     (case scan_events [] evs of
        Inl e \<Rightarrow> Inl e
      | Inr infos \<Rightarrow>
          if wellformed then Inr infos
          else Inl (LMFError ''invalid or ill-formed WN-LMF file''))"

subsection \<open>Streaming Grammar Loader\<close>

text \<open>
  Each \<^verbatim>\<open>while events.starts(...)\<close> loop is a recursive function on the loader's state,
  written as the loop body (one element) and the loop; the arguments of a constructor
  call are evaluated left to right, as Python does. What a function consumes is a prefix
  of the cursor, which is what makes the loops terminate.
\<close>

lemma next_ev_Inr: "next_ev st = Inr (ev, st') \<Longrightarrow> fst st = ev # fst st' \<and> snd st' = snd st"
  by (auto simp: next_ev_def split: list.splits if_splits)

lemma start_ev_Inr:
  "start_ev tags st = Inr (elem, st') \<Longrightarrow>
     fst st = Start elem # fst st' \<and> snd st' = snd st \<and> elem_tag elem \<in> set tags"
  by (auto simp: start_ev_def dest!: next_ev_Inr split: sum.splits event.splits if_splits)

lemma end_ev_Inr:
  "end_ev tags st = Inr (elem, st') \<Longrightarrow>
     fst st = End elem # fst st' \<and> snd st' = snd st \<and> elem_tag elem \<in> set tags"
  by (auto simp: end_ev_def dest!: next_ev_Inr split: sum.splits event.splits if_splits)

lemma next_ev_less: "next_ev st = Inr (ev, st') \<Longrightarrow> length (fst st') < length (fst st)"
  by (drule next_ev_Inr) simp

lemma start_ev_less: "start_ev tags st = Inr (elem, st') \<Longrightarrow> length (fst st') < length (fst st)"
  by (drule start_ev_Inr) simp

lemma end_ev_less: "end_ev tags st = Inr (elem, st') \<Longrightarrow> length (fst st') < length (fst st)"
  by (drule end_ev_Inr) simp

lemma fst_warn [simp]: "fst (warn w st) = fst st"
  by (simp add: warn_def)

lemma get_literal_fst: "get_literal v choices st = (s, st') \<Longrightarrow> fst st' = fst st"
  by (auto simp: get_literal_def split: option.splits if_splits)

lemma get_bool_fst: "get_bool E v st = (b, st') \<Longrightarrow> fst st' = fst st"
  by (auto simp: get_bool_def dest: get_literal_fst split: prod.splits)

lemma get_metadata_fst: "get_metadata E attrs version st = Inr (m, st') \<Longrightarrow> fst st' = fst st"
  by (auto simp: get_metadata_def Let_def split: sum.splits option.splits if_splits prod.splits)

text \<open>
  The element of an event, as \<^verbatim>\<open>next(events)[1]\<close> reads it. \<open>next_ev\<close> never returns
  \<open>Malformed\<close>, for which an empty element stands here.
\<close>

definition event_elem :: "event \<Rightarrow> Element" where
  "event_elem ev =
     (case ev of Start elem \<Rightarrow> elem | End elem \<Rightarrow> elem | Malformed \<Rightarrow> Element [] [] None)"

text \<open>\<^verbatim>\<open>_load_tags\<close>\<close>

definition load_tag ::
  "state \<Rightarrow> error + (Tag \<times> state)" where
  "load_tag st =
     (case next_ev st of Inl e \<Rightarrow> Inl e | Inr (ev, st1) \<Rightarrow>
     (case end_ev [''Tag''] st1 of Inl e \<Rightarrow> Inl e | Inr (elem, st2) \<Rightarrow>
     (case getitem (elem_attrib elem) ''category'' of Inl e \<Rightarrow> Inl e | Inr category \<Rightarrow>
        Inr (\<lparr>tag_text = elem_text elem, tag_category = category\<rparr>, st2))))"

lemma load_tag_less:
  "load_tag st = Inr (x, st') \<Longrightarrow> length (fst st') < length (fst st)"
  by (auto simp: load_tag_def Let_def
        split: sum.splits prod.splits if_splits option.splits
        dest!: next_ev_less start_ev_less end_ev_less get_literal_fst get_bool_fst get_metadata_fst)

function load_tags ::
  "state \<Rightarrow> error + (Tag list \<times> state)" where
  "load_tags st =
     (if starts [''Tag''] st then
        (case load_tag st of Inl e \<Rightarrow> Inl e | Inr (tag, st1) \<Rightarrow>
        (case load_tags st1 of Inl e \<Rightarrow> Inl e | Inr (tags, st2) \<Rightarrow>
           Inr (tag # tags, st2)))
      else Inr ([], st))"
  by pat_completeness auto
termination
  by (relation "measure (\<lambda>st. length (fst st))") (auto dest!: load_tag_less)

declare load_tags.simps [simp del]

lemma load_tags_le:
  "load_tags st = Inr (x, st') \<Longrightarrow> length (fst st') \<le> length (fst st)"
proof (induction st arbitrary: x st' rule: load_tags.induct)
  case (1 st)
  show ?case
  proof (cases "starts [''Tag''] st")
    case True
    with "1.prems" obtain y st1 ys where
      b: "load_tag st = Inr (y, st1)" and
      r: "load_tags st1 = Inr (ys, st')"
      by (subst (asm) load_tags.simps) (auto split: sum.splits)
    have "length (fst st') \<le> length (fst st1)"
      by (rule "1.IH" [OF True b]) (rule refl prod.collapse r)+
    with load_tag_less [OF b] show ?thesis by simp
  next
    case F0: False
    with "1.prems"  show ?thesis
      by (subst (asm) load_tags.simps) auto
  qed
qed

text \<open>\<^verbatim>\<open>_load_forms\<close>\<close>

definition load_form ::
  "state \<Rightarrow> error + (Form \<times> state)" where
  "load_form st =
     (case next_ev st of Inl e \<Rightarrow> Inl e | Inr (ev, st1) \<Rightarrow>
     (let attrs = elem_attrib (event_elem ev) in
     (case getitem attrs ''writtenForm'' of Inl e \<Rightarrow> Inl e | Inr written \<Rightarrow>
     (case load_tags st1 of Inl e \<Rightarrow> Inl e | Inr (tags, st2) \<Rightarrow>
     (case end_ev [''Form''] st2 of Inl e \<Rightarrow> Inl e | Inr (elem, st3) \<Rightarrow>
        Inr (\<lparr>form_form = written, form_script = map_of attrs ''script'',
              form_tags = tags\<rparr>, st3))))))"

lemma load_form_less:
  "load_form st = Inr (x, st') \<Longrightarrow> length (fst st') < length (fst st)"
  by (auto simp: load_form_def Let_def
        split: sum.splits prod.splits if_splits option.splits
        dest!: next_ev_less start_ev_less end_ev_less get_literal_fst get_bool_fst get_metadata_fst load_tags_le)

function load_forms ::
  "state \<Rightarrow> error + (Form list \<times> state)" where
  "load_forms st =
     (if starts [''Form''] st then
        (case load_form st of Inl e \<Rightarrow> Inl e | Inr (form, st1) \<Rightarrow>
        (case load_forms st1 of Inl e \<Rightarrow> Inl e | Inr (forms, st2) \<Rightarrow>
           Inr (form # forms, st2)))
      else Inr ([], st))"
  by pat_completeness auto
termination
  by (relation "measure (\<lambda>st. length (fst st))") (auto dest!: load_form_less)

declare load_forms.simps [simp del]

lemma load_forms_le:
  "load_forms st = Inr (x, st') \<Longrightarrow> length (fst st') \<le> length (fst st)"
proof (induction st arbitrary: x st' rule: load_forms.induct)
  case (1 st)
  show ?case
  proof (cases "starts [''Form''] st")
    case True
    with "1.prems" obtain y st1 ys where
      b: "load_form st = Inr (y, st1)" and
      r: "load_forms st1 = Inr (ys, st')"
      by (subst (asm) load_forms.simps) (auto split: sum.splits)
    have "length (fst st') \<le> length (fst st1)"
      by (rule "1.IH" [OF True b]) (rule refl prod.collapse r)+
    with load_form_less [OF b] show ?thesis by simp
  next
    case F0: False
    with "1.prems"  show ?thesis
      by (subst (asm) load_forms.simps) auto
  qed
qed

text \<open>\<^verbatim>\<open>_load_lemma\<close>\<close>

definition load_lemma ::
  "env \<Rightarrow> state \<Rightarrow> error + (Lemma \<times> state)" where
  "load_lemma E st =
     (case start_ev [''Lemma''] st of Inl e \<Rightarrow> Inl e | Inr (elem, st1) \<Rightarrow>
     (let attrs = elem_attrib elem in
     (case getitem attrs ''writtenForm'' of Inl e \<Rightarrow> Inl e | Inr written \<Rightarrow>
     (case getitem attrs ''partOfSpeech'' of Inl e \<Rightarrow> Inl e | Inr pos_attr \<Rightarrow>
     (case get_literal (Some pos_attr) (PARTS_OF_SPEECH E) st1 of (pos, st2) \<Rightarrow>
     (case load_tags st2 of Inl e \<Rightarrow> Inl e | Inr (tags, st3) \<Rightarrow>
     (case end_ev [''Lemma''] st3 of Inl e \<Rightarrow> Inl e | Inr (elem', st4) \<Rightarrow>
        Inr (\<lparr>lemma_form = written, lemma_pos = pos, lemma_script = map_of attrs ''script'',
              lemma_tags = tags\<rparr>, st4))))))))"

lemma load_lemma_less:
  "load_lemma E st = Inr (x, st') \<Longrightarrow> length (fst st') < length (fst st)"
  by (auto simp: load_lemma_def Let_def
        split: sum.splits prod.splits if_splits option.splits
        dest!: next_ev_less start_ev_less end_ev_less get_literal_fst get_bool_fst get_metadata_fst load_tags_le)

text \<open>\<^verbatim>\<open>_load_sense_relations\<close>\<close>

definition load_sense_relation ::
  "env \<Rightarrow> string \<Rightarrow> state \<Rightarrow> error + (SenseRelation \<times> state)" where
  "load_sense_relation E version st =
     (case next_ev st of Inl e \<Rightarrow> Inl e | Inr (ev, st1) \<Rightarrow>
     (case end_ev [''SenseRelation''] st1 of Inl e \<Rightarrow> Inl e | Inr (elem, st2) \<Rightarrow>
     (let attrs = elem_attrib elem in
     (case getitem attrs ''relType'' of Inl e \<Rightarrow> Inl e | Inr reltype \<Rightarrow>
        if \<not> (reltype \<in> set (SENSE_RELATIONS E) \<or> reltype \<in> set (SENSE_SYNSET_RELATIONS E))
        then Inl (LMFError (''invalid sense relation: '' @ reltype))
        else
          (case getitem attrs ''target'' of Inl e \<Rightarrow> Inl e | Inr target \<Rightarrow>
          (case get_metadata E attrs version st2 of Inl e \<Rightarrow> Inl e | Inr (meta, st3) \<Rightarrow>
             Inr (\<lparr>srel_target = target, srel_type = reltype, srel_meta = meta\<rparr>, st3)))))))"

lemma load_sense_relation_less:
  "load_sense_relation E version st = Inr (x, st') \<Longrightarrow> length (fst st') < length (fst st)"
  by (auto simp: load_sense_relation_def Let_def
        split: sum.splits prod.splits if_splits option.splits
        dest!: next_ev_less start_ev_less end_ev_less get_literal_fst get_bool_fst get_metadata_fst)

function load_sense_relations ::
  "env \<Rightarrow> string \<Rightarrow> state \<Rightarrow> error + (SenseRelation list \<times> state)" where
  "load_sense_relations E version st =
     (if starts [''SenseRelation''] st then
        (case load_sense_relation E version st of Inl e \<Rightarrow> Inl e | Inr (rel, st1) \<Rightarrow>
        (case load_sense_relations E version st1 of Inl e \<Rightarrow> Inl e | Inr (rels, st2) \<Rightarrow>
           Inr (rel # rels, st2)))
      else Inr ([], st))"
  by pat_completeness auto
termination
  by (relation "measure (\<lambda>(E, version, st). length (fst st))") (auto dest!: load_sense_relation_less)

declare load_sense_relations.simps [simp del]

lemma load_sense_relations_le:
  "load_sense_relations E version st = Inr (x, st') \<Longrightarrow> length (fst st') \<le> length (fst st)"
proof (induction E version st arbitrary: x st' rule: load_sense_relations.induct)
  case (1 E version st)
  show ?case
  proof (cases "starts [''SenseRelation''] st")
    case True
    with "1.prems" obtain y st1 ys where
      b: "load_sense_relation E version st = Inr (y, st1)" and
      r: "load_sense_relations E version st1 = Inr (ys, st')"
      by (subst (asm) load_sense_relations.simps) (auto split: sum.splits)
    have "length (fst st') \<le> length (fst st1)"
      by (rule "1.IH" [OF True b]) (rule refl prod.collapse r)+
    with load_sense_relation_less [OF b] show ?thesis by simp
  next
    case F0: False
    with "1.prems"  show ?thesis
      by (subst (asm) load_sense_relations.simps) auto
  qed
qed

text \<open>\<^verbatim>\<open>_load_examples\<close>\<close>

definition load_example ::
  "env \<Rightarrow> string \<Rightarrow> state \<Rightarrow> error + (Example \<times> state)" where
  "load_example E version st =
     (case next_ev st of Inl e \<Rightarrow> Inl e | Inr (ev, st1) \<Rightarrow>
     (case end_ev [''Example''] st1 of Inl e \<Rightarrow> Inl e | Inr (elem, st2) \<Rightarrow>
     (let attrs = elem_attrib elem in
     (case get_metadata E attrs version st2 of Inl e \<Rightarrow> Inl e | Inr (meta, st3) \<Rightarrow>
        Inr (\<lparr>ex_text = elem_text elem, ex_language = map_of attrs ''language'',
              ex_meta = meta\<rparr>, st3)))))"

lemma load_example_less:
  "load_example E version st = Inr (x, st') \<Longrightarrow> length (fst st') < length (fst st)"
  by (auto simp: load_example_def Let_def
        split: sum.splits prod.splits if_splits option.splits
        dest!: next_ev_less start_ev_less end_ev_less get_literal_fst get_bool_fst get_metadata_fst)

function load_examples ::
  "env \<Rightarrow> string \<Rightarrow> state \<Rightarrow> error + (Example list \<times> state)" where
  "load_examples E version st =
     (if starts [''Example''] st then
        (case load_example E version st of Inl e \<Rightarrow> Inl e | Inr (ex, st1) \<Rightarrow>
        (case load_examples E version st1 of Inl e \<Rightarrow> Inl e | Inr (exs, st2) \<Rightarrow>
           Inr (ex # exs, st2)))
      else Inr ([], st))"
  by pat_completeness auto
termination
  by (relation "measure (\<lambda>(E, version, st). length (fst st))") (auto dest!: load_example_less)

declare load_examples.simps [simp del]

lemma load_examples_le:
  "load_examples E version st = Inr (x, st') \<Longrightarrow> length (fst st') \<le> length (fst st)"
proof (induction E version st arbitrary: x st' rule: load_examples.induct)
  case (1 E version st)
  show ?case
  proof (cases "starts [''Example''] st")
    case True
    with "1.prems" obtain y st1 ys where
      b: "load_example E version st = Inr (y, st1)" and
      r: "load_examples E version st1 = Inr (ys, st')"
      by (subst (asm) load_examples.simps) (auto split: sum.splits)
    have "length (fst st') \<le> length (fst st1)"
      by (rule "1.IH" [OF True b]) (rule refl prod.collapse r)+
    with load_example_less [OF b] show ?thesis by simp
  next
    case F0: False
    with "1.prems"  show ?thesis
      by (subst (asm) load_examples.simps) auto
  qed
qed

text \<open>
  \<^verbatim>\<open>_load_counts\<close>. \<^verbatim>\<open>int(elem.text)\<close> raises \<^verbatim>\<open>TypeError\<close> on an element without
  text, which the \<^verbatim>\<open>except ValueError\<close> does not catch.
\<close>

definition load_count ::
  "env \<Rightarrow> string \<Rightarrow> state \<Rightarrow> error + (Count \<times> state)" where
  "load_count E version st =
     (case next_ev st of Inl e \<Rightarrow> Inl e | Inr (ev, st1) \<Rightarrow>
     (case end_ev [''Count''] st1 of Inl e \<Rightarrow> Inl e | Inr (elem, st2) \<Rightarrow>
     (let attrs = elem_attrib elem in
     (case (case elem_text elem of None \<Rightarrow> Inl TypeError | Some t \<Rightarrow> Inr t) of Inl e \<Rightarrow> Inl e | Inr txt \<Rightarrow>
     (case (case py_int E txt of
                          None \<Rightarrow> (- 1, warn (CountNotInteger (elem_text elem)) st2)
                        | Some i \<Rightarrow> (i, st2)) of (n, st3) \<Rightarrow>
     (case get_metadata E attrs version st3 of Inl e \<Rightarrow> Inl e | Inr (meta, st4) \<Rightarrow>
        Inr (\<lparr>count_value = n, count_meta = meta\<rparr>, st4)))))))"

lemma load_count_less:
  "load_count E version st = Inr (x, st') \<Longrightarrow> length (fst st') < length (fst st)"
  by (auto simp: load_count_def Let_def
        split: sum.splits prod.splits if_splits option.splits
        dest!: next_ev_less start_ev_less end_ev_less get_literal_fst get_bool_fst get_metadata_fst)

function load_counts ::
  "env \<Rightarrow> string \<Rightarrow> state \<Rightarrow> error + (Count list \<times> state)" where
  "load_counts E version st =
     (if starts [''Count''] st then
        (case load_count E version st of Inl e \<Rightarrow> Inl e | Inr (cnt, st1) \<Rightarrow>
        (case load_counts E version st1 of Inl e \<Rightarrow> Inl e | Inr (cnts, st2) \<Rightarrow>
           Inr (cnt # cnts, st2)))
      else Inr ([], st))"
  by pat_completeness auto
termination
  by (relation "measure (\<lambda>(E, version, st). length (fst st))") (auto dest!: load_count_less)

declare load_counts.simps [simp del]

lemma load_counts_le:
  "load_counts E version st = Inr (x, st') \<Longrightarrow> length (fst st') \<le> length (fst st)"
proof (induction E version st arbitrary: x st' rule: load_counts.induct)
  case (1 E version st)
  show ?case
  proof (cases "starts [''Count''] st")
    case True
    with "1.prems" obtain y st1 ys where
      b: "load_count E version st = Inr (y, st1)" and
      r: "load_counts E version st1 = Inr (ys, st')"
      by (subst (asm) load_counts.simps) (auto split: sum.splits)
    have "length (fst st') \<le> length (fst st1)"
      by (rule "1.IH" [OF True b]) (rule refl prod.collapse r)+
    with load_count_less [OF b] show ?thesis by simp
  next
    case F0: False
    with "1.prems"  show ?thesis
      by (subst (asm) load_counts.simps) auto
  qed
qed

text \<open>\<^verbatim>\<open>_load_syntactic_behaviours\<close>\<close>

definition load_syntactic_behaviour ::
  "env \<Rightarrow> string \<Rightarrow> state \<Rightarrow> error + (SyntacticBehaviour \<times> state)" where
  "load_syntactic_behaviour E version st =
     (case next_ev st of Inl e \<Rightarrow> Inl e | Inr (ev, st1) \<Rightarrow>
     (case end_ev [''SyntacticBehaviour''] st1 of Inl e \<Rightarrow> Inl e | Inr (elem, st2) \<Rightarrow>
     (let attrs = elem_attrib elem in
     (case getitem attrs ''subcategorizationFrame'' of Inl e \<Rightarrow> Inl e | Inr frame \<Rightarrow>
        Inr (\<lparr>sb_frame = frame,
              sb_senses = py_split E (case map_of attrs ''senses'' of
                                       None \<Rightarrow> [] | Some s \<Rightarrow> s)\<rparr>,
            st2)))))"

lemma load_syntactic_behaviour_less:
  "load_syntactic_behaviour E version st = Inr (x, st') \<Longrightarrow> length (fst st') < length (fst st)"
  by (auto simp: load_syntactic_behaviour_def Let_def
        split: sum.splits prod.splits if_splits option.splits
        dest!: next_ev_less start_ev_less end_ev_less get_literal_fst get_bool_fst get_metadata_fst)

function load_syntactic_behaviours ::
  "env \<Rightarrow> string \<Rightarrow> state \<Rightarrow> error + (SyntacticBehaviour list \<times> state)" where
  "load_syntactic_behaviours E version st =
     (if starts [''SyntacticBehaviour''] st then
        (case load_syntactic_behaviour E version st of Inl e \<Rightarrow> Inl e | Inr (sb, st1) \<Rightarrow>
        (case load_syntactic_behaviours E version st1 of Inl e \<Rightarrow> Inl e | Inr (sbs, st2) \<Rightarrow>
           Inr (sb # sbs, st2)))
      else Inr ([], st))"
  by pat_completeness auto
termination
  by (relation "measure (\<lambda>(E, version, st). length (fst st))") (auto dest!: load_syntactic_behaviour_less)

declare load_syntactic_behaviours.simps [simp del]

lemma load_syntactic_behaviours_le:
  "load_syntactic_behaviours E version st = Inr (x, st') \<Longrightarrow> length (fst st') \<le> length (fst st)"
proof (induction E version st arbitrary: x st' rule: load_syntactic_behaviours.induct)
  case (1 E version st)
  show ?case
  proof (cases "starts [''SyntacticBehaviour''] st")
    case True
    with "1.prems" obtain y st1 ys where
      b: "load_syntactic_behaviour E version st = Inr (y, st1)" and
      r: "load_syntactic_behaviours E version st1 = Inr (ys, st')"
      by (subst (asm) load_syntactic_behaviours.simps) (auto split: sum.splits)
    have "length (fst st') \<le> length (fst st1)"
      by (rule "1.IH" [OF True b]) (rule refl prod.collapse r)+
    with load_syntactic_behaviour_less [OF b] show ?thesis by simp
  next
    case F0: False
    with "1.prems"  show ?thesis
      by (subst (asm) load_syntactic_behaviours.simps) auto
  qed
qed

text \<open>\<^verbatim>\<open>_load_senses\<close>: the \<^verbatim>\<open>Sense\<close> branch, the \<^verbatim>\<open>ExternalSense\<close> branch, the loop.\<close>

definition load_sense ::
  "env \<Rightarrow> string \<Rightarrow> state \<Rightarrow> error + (Sense \<times> state)" where
  "load_sense E version st =
     (case start_ev [''Sense''] st of Inl e \<Rightarrow> Inl e | Inr (elem, st1) \<Rightarrow>
     (let attrs = elem_attrib elem in
     (case getitem attrs ''id'' of Inl e \<Rightarrow> Inl e | Inr sid \<Rightarrow>
     (case getitem attrs ''synset'' of Inl e \<Rightarrow> Inl e | Inr synset \<Rightarrow>
     (case load_sense_relations E version st1 of Inl e \<Rightarrow> Inl e | Inr (relations, st2) \<Rightarrow>
     (case load_examples E version st2 of Inl e \<Rightarrow> Inl e | Inr (examples, st3) \<Rightarrow>
     (case load_counts E version st3 of Inl e \<Rightarrow> Inl e | Inr (counts, st4) \<Rightarrow>
     (case get_bool E (case map_of attrs ''lexicalized'' of None \<Rightarrow> ''true'' | Some v \<Rightarrow> v) st4 of (lexicalized, st5) \<Rightarrow>
     (case get_literal (map_of attrs ''adjposition'') (ADJPOSITIONS E) st5 of (adjposition, st6) \<Rightarrow>
     (case get_metadata E attrs version st6 of Inl e \<Rightarrow> Inl e | Inr (meta, st7) \<Rightarrow>
     (case end_ev [''Sense''] st7 of Inl e \<Rightarrow> Inl e | Inr (elem', st8) \<Rightarrow>
        Inr (\<lparr>sense_id = sid, sense_synset = synset, sense_relations = relations,
              sense_examples = examples, sense_counts = counts,
              sense_lexicalized = lexicalized, sense_adjposition = adjposition,
              sense_external = False, sense_meta = meta\<rparr>, st8))))))))))))"

lemma load_sense_less:
  "load_sense E version st = Inr (x, st') \<Longrightarrow> length (fst st') < length (fst st)"
  by (auto simp: load_sense_def Let_def
        split: sum.splits prod.splits if_splits option.splits
        dest!: next_ev_less start_ev_less end_ev_less get_literal_fst get_bool_fst get_metadata_fst load_tags_le load_forms_le load_sense_relations_le load_examples_le load_counts_le)

definition load_external_sense ::
  "env \<Rightarrow> string \<Rightarrow> state \<Rightarrow> error + (Sense \<times> state)" where
  "load_external_sense E version st =
     (case start_ev [''ExternalSense''] st of Inl e \<Rightarrow> Inl e | Inr (elem, st1) \<Rightarrow>
     (let attrs = elem_attrib elem in
     (case getitem attrs ''id'' of Inl e \<Rightarrow> Inl e | Inr sid \<Rightarrow>
     (case load_sense_relations E version st1 of Inl e \<Rightarrow> Inl e | Inr (relations, st2) \<Rightarrow>
     (case load_examples E version st2 of Inl e \<Rightarrow> Inl e | Inr (examples, st3) \<Rightarrow>
     (case load_counts E version st3 of Inl e \<Rightarrow> Inl e | Inr (counts, st4) \<Rightarrow>
     (case end_ev [''ExternalSense''] st4 of Inl e \<Rightarrow> Inl e | Inr (elem', st5) \<Rightarrow>
        Inr (\<lparr>sense_id = sid, sense_synset = [], sense_relations = relations,
              sense_examples = examples, sense_counts = counts,
              sense_lexicalized = True, sense_adjposition = [],
              sense_external = True, sense_meta = None\<rparr>, st5))))))))"

lemma load_external_sense_less:
  "load_external_sense E version st = Inr (x, st') \<Longrightarrow> length (fst st') < length (fst st)"
  by (auto simp: load_external_sense_def Let_def
        split: sum.splits prod.splits if_splits option.splits
        dest!: next_ev_less start_ev_less end_ev_less get_literal_fst get_bool_fst get_metadata_fst load_tags_le load_forms_le load_sense_relations_le load_examples_le load_counts_le)

function load_senses ::
  "env \<Rightarrow> bool \<Rightarrow> string \<Rightarrow> state \<Rightarrow> error + (Sense list \<times> state)" where
  "load_senses E external version st =
     (if starts [''Sense''] st then
        (case load_sense E version st of Inl e \<Rightarrow> Inl e | Inr (sense, st1) \<Rightarrow>
        (case load_senses E external version st1 of Inl e \<Rightarrow> Inl e | Inr (senses, st2) \<Rightarrow>
           Inr (sense # senses, st2)))
      else if external \<and> starts [''ExternalSense''] st then
        (case load_external_sense E version st of Inl e \<Rightarrow> Inl e | Inr (sense, st1) \<Rightarrow>
        (case load_senses E external version st1 of Inl e \<Rightarrow> Inl e | Inr (senses, st2) \<Rightarrow>
           Inr (sense # senses, st2)))
      else Inr ([], st))"
  by pat_completeness auto
termination
  by (relation "measure (\<lambda>(E, external, version, st). length (fst st))") (auto dest!: load_sense_less load_external_sense_less)

declare load_senses.simps [simp del]

lemma load_senses_le:
  "load_senses E external version st = Inr (x, st') \<Longrightarrow> length (fst st') \<le> length (fst st)"
proof (induction E external version st arbitrary: x st' rule: load_senses.induct)
  case (1 E external version st)
  show ?case
  proof (cases "starts [''Sense''] st")
    case True
    with "1.prems" obtain y st1 ys where
      b: "load_sense E version st = Inr (y, st1)" and
      r: "load_senses E external version st1 = Inr (ys, st')"
      by (subst (asm) load_senses.simps) (auto split: sum.splits)
    have "length (fst st') \<le> length (fst st1)"
      by (rule "1.IH" (1) [OF True b]) (rule refl prod.collapse r)+
    with load_sense_less [OF b] show ?thesis by simp
  next
    case F0: False
    show ?thesis
    proof (cases "external \<and> starts [''ExternalSense''] st")
      case True
      with "1.prems" F0 obtain y st1 ys where
        b: "load_external_sense E version st = Inr (y, st1)" and
        r: "load_senses E external version st1 = Inr (ys, st')"
        by (subst (asm) load_senses.simps) (auto split: sum.splits)
      have "length (fst st') \<le> length (fst st1)"
        by (rule "1.IH" (2) [OF F0 True b]) (rule refl prod.collapse r)+
      with load_external_sense_less [OF b] show ?thesis by simp
    next
      case F1: False
      with "1.prems" F0 show ?thesis
        by (subst (asm) load_senses.simps) auto
    qed
  qed
qed

text \<open>\<^verbatim>\<open>_load_lexical_entries\<close>: each entry comes with the frames read inside it.\<close>

definition load_lexical_entry ::
  "env \<Rightarrow> string \<Rightarrow> state \<Rightarrow>
     error + ((LexicalEntry \<times> SyntacticBehaviour list) \<times> state)" where
  "load_lexical_entry E version st =
     (case start_ev [''LexicalEntry''] st of Inl e \<Rightarrow> Inl e | Inr (elem, st1) \<Rightarrow>
     (let attrs = elem_attrib elem in
     (case getitem attrs ''id'' of Inl e \<Rightarrow> Inl e | Inr eid \<Rightarrow>
     (case load_lemma E st1 of Inl e \<Rightarrow> Inl e | Inr (lemma_obj, st2) \<Rightarrow>
     (case load_forms st2 of Inl e \<Rightarrow> Inl e | Inr (forms, st3) \<Rightarrow>
     (case load_senses E False version st3 of Inl e \<Rightarrow> Inl e | Inr (senses, st4) \<Rightarrow>
     (case get_metadata E attrs version st4 of Inl e \<Rightarrow> Inl e | Inr (meta, st5) \<Rightarrow>
     (case load_syntactic_behaviours E version st5 of Inl e \<Rightarrow> Inl e | Inr (sbs, st6) \<Rightarrow>
     (case end_ev [''LexicalEntry''] st6 of Inl e \<Rightarrow> Inl e | Inr (elem', st7) \<Rightarrow>
        Inr ((\<lparr>entry_id = eid, entry_lemma = Some lemma_obj, entry_forms = forms,
               entry_senses = senses, entry_external = False, entry_meta = meta\<rparr>, sbs), st7))))))))))"

lemma load_lexical_entry_less:
  "load_lexical_entry E version st = Inr (x, st') \<Longrightarrow> length (fst st') < length (fst st)"
  by (auto simp: load_lexical_entry_def Let_def
        split: sum.splits prod.splits if_splits option.splits
        dest!: next_ev_less start_ev_less end_ev_less get_literal_fst get_bool_fst get_metadata_fst load_tags_le load_forms_le load_sense_relations_le load_examples_le load_counts_le load_lemma_less load_senses_le load_syntactic_behaviours_le)

definition load_external_lexical_entry ::
  "env \<Rightarrow> string \<Rightarrow> state \<Rightarrow>
     error + ((LexicalEntry \<times> SyntacticBehaviour list) \<times> state)" where
  "load_external_lexical_entry E version st =
     (case start_ev [''ExternalLexicalEntry''] st of Inl e \<Rightarrow> Inl e | Inr (elem, st1) \<Rightarrow>
     (let attrs = elem_attrib elem in
     (case getitem attrs ''id'' of Inl e \<Rightarrow> Inl e | Inr eid \<Rightarrow>
     (case load_forms st1 of Inl e \<Rightarrow> Inl e | Inr (forms, st2) \<Rightarrow>
     (case load_senses E True version st2 of Inl e \<Rightarrow> Inl e | Inr (senses, st3) \<Rightarrow>
     (case load_syntactic_behaviours E version st3 of Inl e \<Rightarrow> Inl e | Inr (sbs, st4) \<Rightarrow>
     (case end_ev [''ExternalLexicalEntry''] st4 of Inl e \<Rightarrow> Inl e | Inr (elem', st5) \<Rightarrow>
        Inr ((\<lparr>entry_id = eid, entry_lemma = None, entry_forms = forms,
               entry_senses = senses, entry_external = True, entry_meta = None\<rparr>, sbs), st5))))))))"

lemma load_external_lexical_entry_less:
  "load_external_lexical_entry E version st = Inr (x, st') \<Longrightarrow> length (fst st') < length (fst st)"
  by (auto simp: load_external_lexical_entry_def Let_def
        split: sum.splits prod.splits if_splits option.splits
        dest!: next_ev_less start_ev_less end_ev_less get_literal_fst get_bool_fst get_metadata_fst load_tags_le load_forms_le load_sense_relations_le load_examples_le load_counts_le load_lemma_less load_senses_le load_syntactic_behaviours_le)

function load_lexical_entries ::
  "env \<Rightarrow> bool \<Rightarrow> string \<Rightarrow> state \<Rightarrow>
     error + ((LexicalEntry list \<times> SyntacticBehaviour list) \<times> state)" where
  "load_lexical_entries E extension version st =
     (if starts [''LexicalEntry''] st then
        (case load_lexical_entry E version st of Inl e \<Rightarrow> Inl e | Inr ((entry, sbs), st1) \<Rightarrow>
        (case load_lexical_entries E extension version st1 of Inl e \<Rightarrow> Inl e | Inr ((entries, syntactic_behaviours), st2) \<Rightarrow>
           Inr ((entry # entries, sbs @ syntactic_behaviours), st2)))
      else if extension \<and> starts [''ExternalLexicalEntry''] st then
        (case load_external_lexical_entry E version st of Inl e \<Rightarrow> Inl e | Inr ((entry, sbs), st1) \<Rightarrow>
        (case load_lexical_entries E extension version st1 of Inl e \<Rightarrow> Inl e | Inr ((entries, syntactic_behaviours), st2) \<Rightarrow>
           Inr ((entry # entries, sbs @ syntactic_behaviours), st2)))
      else Inr (([], []), st))"
  by pat_completeness auto
termination
  by (relation "measure (\<lambda>(E, extension, version, st). length (fst st))") (auto dest!: load_lexical_entry_less load_external_lexical_entry_less)

declare load_lexical_entries.simps [simp del]

lemma load_lexical_entries_le:
  "load_lexical_entries E extension version st = Inr (x, st') \<Longrightarrow> length (fst st') \<le> length (fst st)"
proof (induction E extension version st arbitrary: x st' rule: load_lexical_entries.induct)
  case (1 E extension version st)
  show ?case
  proof (cases "starts [''LexicalEntry''] st")
    case True
    with "1.prems" obtain y st1 ys where
      b: "load_lexical_entry E version st = Inr (y, st1)" and
      r: "load_lexical_entries E extension version st1 = Inr (ys, st')"
      by (subst (asm) load_lexical_entries.simps) (auto split: sum.splits)
    have "length (fst st') \<le> length (fst st1)"
      by (rule "1.IH" (1) [OF True b]) (rule refl prod.collapse r)+
    with load_lexical_entry_less [OF b] show ?thesis by simp
  next
    case F0: False
    show ?thesis
    proof (cases "extension \<and> starts [''ExternalLexicalEntry''] st")
      case True
      with "1.prems" F0 obtain y st1 ys where
        b: "load_external_lexical_entry E version st = Inr (y, st1)" and
        r: "load_lexical_entries E extension version st1 = Inr (ys, st')"
        by (subst (asm) load_lexical_entries.simps) (auto split: sum.splits)
      have "length (fst st') \<le> length (fst st1)"
        by (rule "1.IH" (2) [OF F0 True b]) (rule refl prod.collapse r)+
      with load_external_lexical_entry_less [OF b] show ?thesis by simp
    next
      case F1: False
      with "1.prems" F0 show ?thesis
        by (subst (asm) load_lexical_entries.simps) auto
    qed
  qed
qed

text \<open>\<^verbatim>\<open>_load_definitions\<close>, \<^verbatim>\<open>_load_ilidefinition\<close>, \<^verbatim>\<open>_load_synset_relations\<close>\<close>

definition load_definition ::
  "env \<Rightarrow> string \<Rightarrow> state \<Rightarrow> error + (Definition \<times> state)" where
  "load_definition E version st =
     (case next_ev st of Inl e \<Rightarrow> Inl e | Inr (ev, st1) \<Rightarrow>
     (case end_ev [''Definition''] st1 of Inl e \<Rightarrow> Inl e | Inr (elem, st2) \<Rightarrow>
     (let attrs = elem_attrib elem in
     (case get_metadata E attrs version st2 of Inl e \<Rightarrow> Inl e | Inr (meta, st3) \<Rightarrow>
        Inr (\<lparr>def_text = elem_text elem, def_language = map_of attrs ''language'',
              def_source_sense = map_of attrs ''sourceSense'', def_meta = meta\<rparr>, st3)))))"

lemma load_definition_less:
  "load_definition E version st = Inr (x, st') \<Longrightarrow> length (fst st') < length (fst st)"
  by (auto simp: load_definition_def Let_def
        split: sum.splits prod.splits if_splits option.splits
        dest!: next_ev_less start_ev_less end_ev_less get_literal_fst get_bool_fst get_metadata_fst)

function load_definitions ::
  "env \<Rightarrow> string \<Rightarrow> state \<Rightarrow> error + (Definition list \<times> state)" where
  "load_definitions E version st =
     (if starts [''Definition''] st then
        (case load_definition E version st of Inl e \<Rightarrow> Inl e | Inr (d, st1) \<Rightarrow>
        (case load_definitions E version st1 of Inl e \<Rightarrow> Inl e | Inr (ds, st2) \<Rightarrow>
           Inr (d # ds, st2)))
      else Inr ([], st))"
  by pat_completeness auto
termination
  by (relation "measure (\<lambda>(E, version, st). length (fst st))") (auto dest!: load_definition_less)

declare load_definitions.simps [simp del]

lemma load_definitions_le:
  "load_definitions E version st = Inr (x, st') \<Longrightarrow> length (fst st') \<le> length (fst st)"
proof (induction E version st arbitrary: x st' rule: load_definitions.induct)
  case (1 E version st)
  show ?case
  proof (cases "starts [''Definition''] st")
    case True
    with "1.prems" obtain y st1 ys where
      b: "load_definition E version st = Inr (y, st1)" and
      r: "load_definitions E version st1 = Inr (ys, st')"
      by (subst (asm) load_definitions.simps) (auto split: sum.splits)
    have "length (fst st') \<le> length (fst st1)"
      by (rule "1.IH" [OF True b]) (rule refl prod.collapse r)+
    with load_definition_less [OF b] show ?thesis by simp
  next
    case F0: False
    with "1.prems"  show ?thesis
      by (subst (asm) load_definitions.simps) auto
  qed
qed

definition load_ilidefinition ::
  "env \<Rightarrow> string \<Rightarrow> state \<Rightarrow> error + (ILIDefinition option \<times> state)" where
  "load_ilidefinition E version st =
     (if starts [''ILIDefinition''] st then
        (case next_ev st of Inl e \<Rightarrow> Inl e | Inr (ev, st1) \<Rightarrow>
        (case end_ev [''ILIDefinition''] st1 of Inl e \<Rightarrow> Inl e | Inr (elem, st2) \<Rightarrow>
        (case get_metadata E (elem_attrib elem) version st2 of Inl e \<Rightarrow> Inl e | Inr (meta, st3) \<Rightarrow>
           Inr (Some \<lparr>ilidef_text = elem_text elem, ilidef_meta = meta\<rparr>, st3))))
      else Inr (None, st))"

lemma load_ilidefinition_le:
  "load_ilidefinition E version st = Inr (x, st') \<Longrightarrow> length (fst st') \<le> length (fst st)"
  by (auto simp: load_ilidefinition_def split: sum.splits prod.splits if_splits
        dest!: next_ev_less end_ev_less get_metadata_fst)

definition load_synset_relation ::
  "env \<Rightarrow> string \<Rightarrow> state \<Rightarrow> error + (SynsetRelation \<times> state)" where
  "load_synset_relation E version st =
     (case next_ev st of Inl e \<Rightarrow> Inl e | Inr (ev, st1) \<Rightarrow>
     (case end_ev [''SynsetRelation''] st1 of Inl e \<Rightarrow> Inl e | Inr (elem, st2) \<Rightarrow>
     (let attrs = elem_attrib elem in
     (case getitem attrs ''relType'' of Inl e \<Rightarrow> Inl e | Inr reltype \<Rightarrow>
        if reltype \<notin> set (SYNSET_RELATIONS E)
        then Inl (LMFError (''invalid synset relation: '' @ reltype))
        else
          (case getitem attrs ''target'' of Inl e \<Rightarrow> Inl e | Inr target \<Rightarrow>
          (case get_metadata E attrs version st2 of Inl e \<Rightarrow> Inl e | Inr (meta, st3) \<Rightarrow>
             Inr (\<lparr>ssrel_target = target, ssrel_type = reltype, ssrel_meta = meta\<rparr>, st3)))))))"

lemma load_synset_relation_less:
  "load_synset_relation E version st = Inr (x, st') \<Longrightarrow> length (fst st') < length (fst st)"
  by (auto simp: load_synset_relation_def Let_def
        split: sum.splits prod.splits if_splits option.splits
        dest!: next_ev_less start_ev_less end_ev_less get_literal_fst get_bool_fst get_metadata_fst)

function load_synset_relations ::
  "env \<Rightarrow> string \<Rightarrow> state \<Rightarrow> error + (SynsetRelation list \<times> state)" where
  "load_synset_relations E version st =
     (if starts [''SynsetRelation''] st then
        (case load_synset_relation E version st of Inl e \<Rightarrow> Inl e | Inr (rel, st1) \<Rightarrow>
        (case load_synset_relations E version st1 of Inl e \<Rightarrow> Inl e | Inr (rels, st2) \<Rightarrow>
           Inr (rel # rels, st2)))
      else Inr ([], st))"
  by pat_completeness auto
termination
  by (relation "measure (\<lambda>(E, version, st). length (fst st))") (auto dest!: load_synset_relation_less)

declare load_synset_relations.simps [simp del]

lemma load_synset_relations_le:
  "load_synset_relations E version st = Inr (x, st') \<Longrightarrow> length (fst st') \<le> length (fst st)"
proof (induction E version st arbitrary: x st' rule: load_synset_relations.induct)
  case (1 E version st)
  show ?case
  proof (cases "starts [''SynsetRelation''] st")
    case True
    with "1.prems" obtain y st1 ys where
      b: "load_synset_relation E version st = Inr (y, st1)" and
      r: "load_synset_relations E version st1 = Inr (ys, st')"
      by (subst (asm) load_synset_relations.simps) (auto split: sum.splits)
    have "length (fst st') \<le> length (fst st1)"
      by (rule "1.IH" [OF True b]) (rule refl prod.collapse r)+
    with load_synset_relation_less [OF b] show ?thesis by simp
  next
    case F0: False
    with "1.prems"  show ?thesis
      by (subst (asm) load_synset_relations.simps) auto
  qed
qed

text \<open>\<^verbatim>\<open>_load_synsets\<close>\<close>

definition load_synset ::
  "env \<Rightarrow> string \<Rightarrow> state \<Rightarrow> error + (Synset \<times> state)" where
  "load_synset E version st =
     (case start_ev [''Synset''] st of Inl e \<Rightarrow> Inl e | Inr (elem, st1) \<Rightarrow>
     (let attrs = elem_attrib elem in
     (case getitem attrs ''id'' of Inl e \<Rightarrow> Inl e | Inr sid \<Rightarrow>
     (case getitem attrs ''ili'' of Inl e \<Rightarrow> Inl e | Inr ili \<Rightarrow>
     (case get_literal (map_of attrs ''partOfSpeech'') (PARTS_OF_SPEECH E) st1 of (pos, st2) \<Rightarrow>
     (case load_definitions E version st2 of Inl e \<Rightarrow> Inl e | Inr (definitions, st3) \<Rightarrow>
     (case load_ilidefinition E version st3 of Inl e \<Rightarrow> Inl e | Inr (ili_definition, st4) \<Rightarrow>
     (case load_synset_relations E version st4 of Inl e \<Rightarrow> Inl e | Inr (relations, st5) \<Rightarrow>
     (case load_examples E version st5 of Inl e \<Rightarrow> Inl e | Inr (examples, st6) \<Rightarrow>
     (case get_bool E (case map_of attrs ''lexicalized'' of None \<Rightarrow> ''true'' | Some v \<Rightarrow> v) st6 of (lexicalized, st7) \<Rightarrow>
     (case get_metadata E attrs version st7 of Inl e \<Rightarrow> Inl e | Inr (meta, st8) \<Rightarrow>
     (case end_ev [''Synset''] st8 of Inl e \<Rightarrow> Inl e | Inr (elem', st9) \<Rightarrow>
        Inr (\<lparr>synset_id = sid, synset_ili = ili, synset_pos = pos,
              synset_definitions = definitions, synset_ili_definition = ili_definition,
              synset_relations = relations, synset_examples = examples,
              synset_lexicalized = lexicalized, synset_external = False,
              synset_meta = meta\<rparr>, st9)))))))))))))"

lemma load_synset_less:
  "load_synset E version st = Inr (x, st') \<Longrightarrow> length (fst st') < length (fst st)"
  by (auto simp: load_synset_def Let_def
        split: sum.splits prod.splits if_splits option.splits
        dest!: next_ev_less start_ev_less end_ev_less get_literal_fst get_bool_fst get_metadata_fst load_definitions_le load_ilidefinition_le load_synset_relations_le load_examples_le)

definition load_external_synset ::
  "env \<Rightarrow> string \<Rightarrow> state \<Rightarrow> error + (Synset \<times> state)" where
  "load_external_synset E version st =
     (case start_ev [''ExternalSynset''] st of Inl e \<Rightarrow> Inl e | Inr (elem, st1) \<Rightarrow>
     (let attrs = elem_attrib elem in
     (case getitem attrs ''id'' of Inl e \<Rightarrow> Inl e | Inr sid \<Rightarrow>
     (case load_definitions E version st1 of Inl e \<Rightarrow> Inl e | Inr (definitions, st2) \<Rightarrow>
     (case load_synset_relations E version st2 of Inl e \<Rightarrow> Inl e | Inr (relations, st3) \<Rightarrow>
     (case load_examples E version st3 of Inl e \<Rightarrow> Inl e | Inr (examples, st4) \<Rightarrow>
     (case end_ev [''ExternalSynset''] st4 of Inl e \<Rightarrow> Inl e | Inr (elem', st5) \<Rightarrow>
        Inr (\<lparr>synset_id = sid, synset_ili = [], synset_pos = [],
              synset_definitions = definitions, synset_ili_definition = None,
              synset_relations = relations, synset_examples = examples,
              synset_lexicalized = True, synset_external = True,
              synset_meta = None\<rparr>, st5))))))))"

lemma load_external_synset_less:
  "load_external_synset E version st = Inr (x, st') \<Longrightarrow> length (fst st') < length (fst st)"
  by (auto simp: load_external_synset_def Let_def
        split: sum.splits prod.splits if_splits option.splits
        dest!: next_ev_less start_ev_less end_ev_less get_literal_fst get_bool_fst get_metadata_fst load_definitions_le load_ilidefinition_le load_synset_relations_le load_examples_le)

function load_synsets ::
  "env \<Rightarrow> bool \<Rightarrow> string \<Rightarrow> state \<Rightarrow> error + (Synset list \<times> state)" where
  "load_synsets E extension version st =
     (if starts [''Synset''] st then
        (case load_synset E version st of Inl e \<Rightarrow> Inl e | Inr (synset, st1) \<Rightarrow>
        (case load_synsets E extension version st1 of Inl e \<Rightarrow> Inl e | Inr (synsets, st2) \<Rightarrow>
           Inr (synset # synsets, st2)))
      else if extension \<and> starts [''ExternalSynset''] st then
        (case load_external_synset E version st of Inl e \<Rightarrow> Inl e | Inr (synset, st1) \<Rightarrow>
        (case load_synsets E extension version st1 of Inl e \<Rightarrow> Inl e | Inr (synsets, st2) \<Rightarrow>
           Inr (synset # synsets, st2)))
      else Inr ([], st))"
  by pat_completeness auto
termination
  by (relation "measure (\<lambda>(E, extension, version, st). length (fst st))") (auto dest!: load_synset_less load_external_synset_less)

declare load_synsets.simps [simp del]

lemma load_synsets_le:
  "load_synsets E extension version st = Inr (x, st') \<Longrightarrow> length (fst st') \<le> length (fst st)"
proof (induction E extension version st arbitrary: x st' rule: load_synsets.induct)
  case (1 E extension version st)
  show ?case
  proof (cases "starts [''Synset''] st")
    case True
    with "1.prems" obtain y st1 ys where
      b: "load_synset E version st = Inr (y, st1)" and
      r: "load_synsets E extension version st1 = Inr (ys, st')"
      by (subst (asm) load_synsets.simps) (auto split: sum.splits)
    have "length (fst st') \<le> length (fst st1)"
      by (rule "1.IH" (1) [OF True b]) (rule refl prod.collapse r)+
    with load_synset_less [OF b] show ?thesis by simp
  next
    case F0: False
    show ?thesis
    proof (cases "extension \<and> starts [''ExternalSynset''] st")
      case True
      with "1.prems" F0 obtain y st1 ys where
        b: "load_external_synset E version st = Inr (y, st1)" and
        r: "load_synsets E extension version st1 = Inr (ys, st')"
        by (subst (asm) load_synsets.simps) (auto split: sum.splits)
      have "length (fst st') \<le> length (fst st1)"
        by (rule "1.IH" (2) [OF F0 True b]) (rule refl prod.collapse r)+
      with load_external_synset_less [OF b] show ?thesis by simp
    next
      case F1: False
      with "1.prems" F0 show ?thesis
        by (subst (asm) load_synsets.simps) auto
    qed
  qed
qed

text \<open>\<^verbatim>\<open>_load_dependency\<close>, and the \<^verbatim>\<open>Requires\<close> loop of \<^verbatim>\<open>_load_lexicon\<close>\<close>

definition load_dependency ::
  "string \<Rightarrow> state \<Rightarrow> error + (Dependency \<times> state)" where
  "load_dependency tag st =
     (case start_ev [tag] st of Inl e \<Rightarrow> Inl e | Inr (elem0, st1) \<Rightarrow>
     (case end_ev [tag] st1 of Inl e \<Rightarrow> Inl e | Inr (elem, st2) \<Rightarrow>
     (case getitem (elem_attrib elem) ''id'' of Inl e \<Rightarrow> Inl e | Inr did \<Rightarrow>
     (case getitem (elem_attrib elem) ''version'' of Inl e \<Rightarrow> Inl e | Inr dversion \<Rightarrow>
        Inr (\<lparr>dep_id = did, dep_version = dversion,
              dep_url = map_of (elem_attrib elem) ''url''\<rparr>, st2)))))"

lemma load_dependency_less:
  "load_dependency tag st = Inr (x, st') \<Longrightarrow> length (fst st') < length (fst st)"
  by (auto simp: load_dependency_def Let_def
        split: sum.splits prod.splits if_splits option.splits
        dest!: next_ev_less start_ev_less end_ev_less get_literal_fst get_bool_fst get_metadata_fst)

function load_requires ::
  "state \<Rightarrow> error + (Dependency list \<times> state)" where
  "load_requires st =
     (if starts [''Requires''] st then
        (case load_dependency ''Requires'' st of Inl e \<Rightarrow> Inl e | Inr (dep, st1) \<Rightarrow>
        (case load_requires st1 of Inl e \<Rightarrow> Inl e | Inr (deps, st2) \<Rightarrow>
           Inr (dep # deps, st2)))
      else Inr ([], st))"
  by pat_completeness auto
termination
  by (relation "measure (\<lambda>st. length (fst st))") (auto dest!: load_dependency_less)

declare load_requires.simps [simp del]

lemma load_requires_le:
  "load_requires st = Inr (x, st') \<Longrightarrow> length (fst st') \<le> length (fst st)"
proof (induction st arbitrary: x st' rule: load_requires.induct)
  case (1 st)
  show ?case
  proof (cases "starts [''Requires''] st")
    case True
    with "1.prems" obtain y st1 ys where
      b: "load_dependency ''Requires'' st = Inr (y, st1)" and
      r: "load_requires st1 = Inr (ys, st')"
      by (subst (asm) load_requires.simps) (auto split: sum.splits)
    have "length (fst st') \<le> length (fst st1)"
      by (rule "1.IH" [OF True b]) (rule refl prod.collapse r)+
    with load_dependency_less [OF b] show ?thesis by simp
  next
    case F0: False
    with "1.prems"  show ?thesis
      by (subst (asm) load_requires.simps) auto
  qed
qed

text \<open>
  \<^verbatim>\<open>_load_lexicon\<close>. The entries and synsets are read before the attributes of the root
  are looked up, as in the source.
\<close>

definition load_lexicon :: "env \<Rightarrow> string \<Rightarrow> state \<Rightarrow> error + (Lexicon \<times> state)" where
  "load_lexicon E version st =
     (case
        (if version = ''1.0'' then
           (case start_ev [''Lexicon''] st of Inl e \<Rightarrow> Inl e | Inr (lex_root, st1) \<Rightarrow>
              Inr ((lex_root, False, None, []), st1))
         else
           (case start_ev [''Lexicon'', ''LexiconExtension''] st of Inl e \<Rightarrow> Inl e
            | Inr (lex_root, st1) \<Rightarrow>
           (let extension = (elem_tag lex_root = ''LexiconExtension'') in
           (case (if extension then
                    (case load_dependency ''Extends'' st1 of Inl e \<Rightarrow> Inl e
                     | Inr (dep, st2) \<Rightarrow> Inr (Some dep, st2))
                  else Inr (None, st1)) of Inl e \<Rightarrow> Inl e | Inr (extends, st2) \<Rightarrow>
           (case load_requires st2 of Inl e \<Rightarrow> Inl e | Inr (requires, st3) \<Rightarrow>
              Inr ((lex_root, extension, extends, requires), st3))))))
      of Inl e \<Rightarrow> Inl e | Inr ((lex_root, extension, extends, requires), st3) \<Rightarrow>
     (let attrs = elem_attrib lex_root in
     (case load_lexical_entries E extension version st3 of Inl e \<Rightarrow> Inl e | Inr ((entries, frames), st4) \<Rightarrow>
     (case load_synsets E extension version st4 of Inl e \<Rightarrow> Inl e | Inr (synsets, st5) \<Rightarrow>
     (case getitem attrs ''id'' of Inl e \<Rightarrow> Inl e | Inr lid \<Rightarrow>
     (case getitem attrs ''label'' of Inl e \<Rightarrow> Inl e | Inr label \<Rightarrow>
     (case getitem attrs ''language'' of Inl e \<Rightarrow> Inl e | Inr language \<Rightarrow>
     (case getitem attrs ''email'' of Inl e \<Rightarrow> Inl e | Inr email \<Rightarrow>
     (case getitem attrs ''license'' of Inl e \<Rightarrow> Inl e | Inr license \<Rightarrow>
     (case getitem attrs ''version'' of Inl e \<Rightarrow> Inl e | Inr lversion \<Rightarrow>
     (case get_metadata E attrs version st5 of Inl e \<Rightarrow> Inl e | Inr (meta, st6) \<Rightarrow>
     (case end_ev [elem_tag lex_root] st6 of Inl e \<Rightarrow> Inl e | Inr (elem', st7) \<Rightarrow>
        Inr (\<lparr>lex_id = lid, lex_label = label, lex_language = language, lex_email = email,
              lex_license = license, lex_version = lversion,
              lex_url = map_of attrs ''url'', lex_citation = map_of attrs ''citation'',
              lex_lexical_entries = entries, lex_synsets = synsets,
              lex_syntactic_behaviours = frames, lex_extends = extends,
              lex_requires = requires, lex_meta = meta\<rparr>, st7)))))))))))))"

lemma load_lexicon_less:
  "load_lexicon E version st = Inr (x, st') \<Longrightarrow> length (fst st') < length (fst st)"
  unfolding load_lexicon_def Let_def
  by (auto split: sum.splits prod.splits if_splits
        dest!: next_ev_less start_ev_less end_ev_less get_literal_fst get_bool_fst get_metadata_fst load_dependency_less load_requires_le load_lexical_entries_le load_synsets_le)

text \<open>The loop of \<^verbatim>\<open>load\<close>, and \<^verbatim>\<open>load\<close> itself.\<close>

function load_lexicons ::
  "env \<Rightarrow> string \<Rightarrow> state \<Rightarrow> error + (Lexicon list \<times> state)" where
  "load_lexicons E version st =
     (if starts [''Lexicon'', ''LexiconExtension''] st then
        (case load_lexicon E version st of Inl e \<Rightarrow> Inl e | Inr (lexicon, st1) \<Rightarrow>
        (case load_lexicons E version st1 of Inl e \<Rightarrow> Inl e | Inr (lexicons, st2) \<Rightarrow>
           Inr (lexicon # lexicons, st2)))
      else Inr ([], st))"
  by pat_completeness auto
termination
  by (relation "measure (\<lambda>(E, version, st). length (fst st))") (auto dest!: load_lexicon_less)

declare load_lexicons.simps [simp del]

lemma load_lexicons_le:
  "load_lexicons E version st = Inr (x, st') \<Longrightarrow> length (fst st') \<le> length (fst st)"
proof (induction E version st arbitrary: x st' rule: load_lexicons.induct)
  case (1 E version st)
  show ?case
  proof (cases "starts [''Lexicon'', ''LexiconExtension''] st")
    case True
    with "1.prems" obtain y st1 ys where
      b: "load_lexicon E version st = Inr (y, st1)" and
      r: "load_lexicons E version st1 = Inr (ys, st')"
      by (subst (asm) load_lexicons.simps) (auto split: sum.splits)
    have "length (fst st') \<le> length (fst st1)"
      by (rule "1.IH" [OF True b]) (rule refl prod.collapse r)+
    with load_lexicon_less [OF b] show ?thesis by simp
  next
    case F0: False
    with "1.prems"  show ?thesis
      by (subst (asm) load_lexicons.simps) auto
  qed
qed

text \<open>
  \<^verbatim>\<open>load\<close>. \<open>fh\<close> is the file as bytes and \<open>evs\<close> the events \<^verbatim>\<open>ET.iterparse\<close> yields
  for the same file, up to the end of the document. \<open>load_document\<close> is the part of
  \<^verbatim>\<open>load\<close> from the root's start tag to the root's end tag; it returns the cursor, so
  that what \<^verbatim>\<open>list(events)\<close> then reads and drops is visible. \<^verbatim>\<open>load\<close> returns the
  lexicons, with the diagnostics issued.
\<close>

definition load_document ::
  "env \<Rightarrow> string \<Rightarrow> state \<Rightarrow> error + (LexicalResource \<times> state)" where
  "load_document E version st =
     (case start_ev [''LexicalResource''] st of Inl e \<Rightarrow> Inl e | Inr (root_elem, st1) \<Rightarrow>
     (case load_lexicons E version st1 of Inl e \<Rightarrow> Inl e | Inr (lexicons, st2) \<Rightarrow>
     (case end_ev [elem_tag root_elem] st2 of Inl e \<Rightarrow> Inl e | Inr (elem', st3) \<Rightarrow>
        Inr (lexicons, st3))))"

definition load ::
  "env \<Rightarrow> string \<Rightarrow> event list \<Rightarrow> error + (LexicalResource \<times> LMFWarning list)" where
  "load E fh evs =
     (case read_header fh of Inl e \<Rightarrow> Inl e | Inr version \<Rightarrow>
     (case load_document E version (evs, []) of Inl e \<Rightarrow> Inl e | Inr (lexicons, st) \<Rightarrow>
        Inr (lexicons, snd st)))"

text \<open>The attribute names of the 17 slots, for a schema version.\<close>

definition slot_keys :: "string \<Rightarrow> string list" where
  "slot_keys version =
     (case map_of DC_QNAME_PAIRS version of
        None \<Rightarrow> []
      | Some pairs \<Rightarrow> map fst pairs @ [''status'', ''note'', ''confidenceScore''])"

text \<open>
  On ASCII text \<^verbatim>\<open>str.split()\<close> gives the maximal runs of non-whitespace characters and
  \<^verbatim>\<open>str.lower()\<close> maps the capital letters to the small ones. These two functions do
  that; they serve as \<open>py_split\<close> and \<open>py_lower\<close> in the concrete environment below, whose
  examples are ASCII.
\<close>

definition ascii_space :: "char \<Rightarrow> bool" where
  "ascii_space c =
     (c \<in> set [CHR 0x20, CHR 0x09, CHR 0x0A, CHR 0x0B, CHR 0x0C, CHR 0x0D,
                CHR 0x1C, CHR 0x1D, CHR 0x1E, CHR 0x1F])"

function ascii_split :: "string \<Rightarrow> string list" where
  "ascii_split s =
     (case dropWhile ascii_space s of
        [] \<Rightarrow> []
      | c # cs \<Rightarrow>
          (c # takeWhile (\<lambda>d. \<not> ascii_space d) cs)
            # ascii_split (dropWhile (\<lambda>d. \<not> ascii_space d) cs))"
  by pat_completeness auto
termination
proof (relation "measure length")
  fix s c cs
  assume "dropWhile ascii_space s = c # cs"
  then have "length (c # cs) \<le> length s"
    by (metis length_dropWhile_le)
  moreover have "length (dropWhile (\<lambda>d. \<not> ascii_space d) cs) \<le> length cs"
    by (rule length_dropWhile_le)
  ultimately show "(dropWhile (\<lambda>d. \<not> ascii_space d) cs, s) \<in> measure length"
    by simp
qed simp

declare ascii_split.simps [simp del]

definition ascii_lower_char :: "char \<Rightarrow> char" where
  "ascii_lower_char c =
     (if 0x41 \<le> (of_char c :: nat) \<and> (of_char c :: nat) \<le> 0x5A
      then char_of ((of_char c :: nat) + 0x20) else c)"

definition ascii_lower :: "string \<Rightarrow> string" where
  "ascii_lower s = map ascii_lower_char s"

text \<open>A concrete environment, for evaluating the model on examples.\<close>

definition E0 :: env where
  "E0 = \<lparr>SENSE_RELATIONS = [''antonym''], SENSE_SYNSET_RELATIONS = [''domain_topic''],
          SYNSET_RELATIONS = [''hypernym''], ADJPOSITIONS = [''a'', ''ip'', ''p''],
          PARTS_OF_SPEECH = [''n'', ''v''],
          py_float = (\<lambda>s. if s = ''0.5'' then Some (Finite (1 / 2)) else None),
          py_int = (\<lambda>s. if s = ''7'' then Some 7 else None),
          str_float = (\<lambda>x. ''0.5''), py_lower = ascii_lower, py_split = ascii_split,
          set_order = remdups\<rparr>"

subsection \<open>Canonical Serializer\<close>

text \<open>
  The serializer builds \<^verbatim>\<open>ET.Element\<close> trees and prints them. The model stops at the
  trees: \<open>dump\<close> returns the two header lines and the tree of the document, whose
  printing (\<^verbatim>\<open>_tostring\<close>, \<^verbatim>\<open>_indent\<close>, \<^verbatim>\<open>quoteattr\<close>) adds only markup and whitespace.
  A dictionary of attributes is an association list in insertion order.
\<close>

fun dict_set :: "attrs \<Rightarrow> string \<Rightarrow> string \<Rightarrow> attrs" where
  "dict_set [] k v = [(k, v)]"
| "dict_set ((k', v') # d) k v = (if k' = k then (k, v) # d else (k', v') # dict_set d k v)"

definition dict_update :: "attrs \<Rightarrow> attrs \<Rightarrow> attrs" where
  "dict_update d other = foldl (\<lambda>d' (k, v). dict_set d' k v) d other"

text \<open>\<^verbatim>\<open>str()\<close> of an integer: decimal digits, with a minus sign when negative.\<close>

function str_nat :: "nat \<Rightarrow> string" where
  "str_nat n =
     (if n < 10 then [char_of (48 + n)]
      else str_nat (n div 10) @ [char_of (48 + n mod 10)])"
  by pat_completeness auto
termination
  by (relation "measure id") auto

declare str_nat.simps [simp del]

definition str_int :: "int \<Rightarrow> string" where
  "str_int i = (if i < 0 then CHR ''-'' # str_nat (nat (- i)) else str_nat (nat i))"

definition str_pyval :: "env \<Rightarrow> pyval \<Rightarrow> string" where
  "str_pyval E v = (case v of PyStr s \<Rightarrow> s | PyFloat x \<Rightarrow> str_float E x)"

text \<open>\<^verbatim>\<open>_meta_dict\<close>: every field that is not \<^verbatim>\<open>None\<close>, under the key \<^verbatim>\<open>dc:\<close> + field name.\<close>

definition meta_dict :: "env \<Rightarrow> Metadata option \<Rightarrow> attrs" where
  "meta_dict E m =
     (case m of
        None \<Rightarrow> []
      | Some slots \<Rightarrow>
          concat (map (\<lambda>(key, val). case val of
                                        None \<Rightarrow> []
                                      | Some v \<Rightarrow> [(''dc:'' @ key, str_pyval E v)])
                   (zip Metadata_fields slots)))"

definition build_syntactic_behaviour_1_0 :: "string \<Rightarrow> string list \<Rightarrow> xml" where
  "build_syntactic_behaviour_1_0 frame senses =
     Node (Element ''SyntacticBehaviour''
             [(''subcategorizationFrame'', frame), (''senses'', join '' '' senses)] None) []"

definition build_tag :: "Tag \<Rightarrow> xml" where
  "build_tag tag = Node (Element ''Tag'' [(''category'', tag_category tag)] (tag_text tag)) []"

text \<open>\<^verbatim>\<open>if x:\<close> on an optional string: neither \<^verbatim>\<open>None\<close> nor empty.\<close>

definition truthy :: "string option \<Rightarrow> bool" where
  "truthy x = (x \<noteq> None \<and> x \<noteq> Some [])"

definition build_lemma :: "Lemma option \<Rightarrow> error + xml" where
  "build_lemma l =
     (case l of
        None \<Rightarrow> Inl AttributeError
      | Some lem \<Rightarrow>
          Inr (Node (Element ''Lemma''
                       ([(''writtenForm'', lemma_form lem)]
                        @ (if truthy (lemma_script lem)
                           then [(''script'', the (lemma_script lem))] else [])
                        @ [(''partOfSpeech'', lemma_pos lem)]) None)
                 (map build_tag (lemma_tags lem))))"

definition build_form :: "Form \<Rightarrow> xml" where
  "build_form form =
     Node (Element ''Form''
             ([(''writtenForm'', form_form form)]
              @ (if truthy (form_script form) then [(''script'', the (form_script form))] else []))
             None)
       (map build_tag (form_tags form))"

definition build_sense_relation :: "env \<Rightarrow> SenseRelation \<Rightarrow> xml" where
  "build_sense_relation E relation =
     Node (Element ''SenseRelation''
             (dict_update [(''target'', srel_target relation), (''relType'', srel_type relation)]
                (meta_dict E (srel_meta relation))) None) []"

definition build_example :: "Example \<Rightarrow> xml" where
  "build_example example =
     Node (Element ''Example''
             (if truthy (ex_language example) then [(''language'', the (ex_language example))]
              else [])
             (ex_text example)) []"

definition build_count :: "env \<Rightarrow> Count \<Rightarrow> xml" where
  "build_count E count =
     Node (Element ''Count'' (meta_dict E (count_meta count)) (Some (str_int (count_value count))))
       []"

definition build_sense :: "env \<Rightarrow> Sense \<Rightarrow> xml" where
  "build_sense E sense =
     (let attrib = dict_update [(''id'', sense_id sense), (''synset'', sense_synset sense)]
                     (meta_dict E (sense_meta sense));
          attrib = (if \<not> sense_lexicalized sense then dict_set attrib ''lexicalized'' ''false''
                    else attrib);
          attrib = (if sense_adjposition sense \<noteq> []
                    then dict_set attrib ''adjposition'' (sense_adjposition sense) else attrib)
      in Node (Element ''Sense'' attrib None)
           (map (build_sense_relation E) (sense_relations sense)
            @ map build_example (sense_examples sense)
            @ map (build_count E) (sense_counts sense)))"

text \<open>
  \<^verbatim>\<open>sbmap\<close> of \<^verbatim>\<open>_dump_lexicon\<close>: \<^verbatim>\<open>sbmap.setdefault(sense_id, []).append(sb)\<close> for every
  sense id of every frame, in order.
\<close>

definition sbmap_append ::
  "(string \<rightharpoonup> SyntacticBehaviour list) \<Rightarrow> string \<Rightarrow> SyntacticBehaviour \<Rightarrow>
   (string \<rightharpoonup> SyntacticBehaviour list)" where
  "sbmap_append m sid sb =
     m(sid \<mapsto> (case m sid of None \<Rightarrow> [] | Some l \<Rightarrow> l) @ [sb])"

definition build_sbmap ::
  "string \<Rightarrow> SyntacticBehaviour list \<Rightarrow> (string \<rightharpoonup> SyntacticBehaviour list)" where
  "build_sbmap version sbs =
     (if version = ''1.0''
      then foldl (\<lambda>m sb. foldl (\<lambda>m' sid. sbmap_append m' sid sb) m (sb_senses sb))
             Map.empty sbs
      else Map.empty)"

text \<open>
  \<^verbatim>\<open>sorted(senses.intersection(sb.senses))\<close> for the set \<^verbatim>\<open>senses\<close> of the ids \<open>ids\<close>:
  the ids that the frame lists, without repetition, in ascending order.
\<close>

definition sorted_intersection :: "string list \<Rightarrow> string list \<Rightarrow> string list" where
  "sorted_intersection ids other = sort (remdups (filter (\<lambda>s. s \<in> set other) ids))"

text \<open>
  The \<^verbatim>\<open>SyntacticBehaviour\<close> elements \<^verbatim>\<open>_dump_lexical_entry\<close> appends at version 1.0:
  for each sense id of the set, for each frame \<^verbatim>\<open>sbmap\<close> holds for it.
\<close>

definition entry_syntactic_behaviours ::
  "env \<Rightarrow> LexicalEntry \<Rightarrow> (string \<rightharpoonup> SyntacticBehaviour list) \<Rightarrow> xml list" where
  "entry_syntactic_behaviours E entry sbmap =
     (let ids = map sense_id (entry_senses entry) in
      concat (map (\<lambda>sid.
                map (\<lambda>sb. build_syntactic_behaviour_1_0 (sb_frame sb)
                             (sorted_intersection ids (sb_senses sb)))
                  (case sbmap sid of None \<Rightarrow> [] | Some sbs \<Rightarrow> sbs))
              (set_order E ids)))"

definition dump_lexical_entry ::
  "env \<Rightarrow> LexicalEntry \<Rightarrow> (string \<rightharpoonup> SyntacticBehaviour list) \<Rightarrow> string \<Rightarrow> error + xml" where
  "dump_lexical_entry E entry sbmap version =
     (let attrib = dict_update [(''id'', entry_id entry)] (meta_dict E (entry_meta entry)) in
      case build_lemma (entry_lemma entry) of
        Inl e \<Rightarrow> Inl e
      | Inr lemma_elem \<Rightarrow>
          Inr (Node (Element ''LexicalEntry'' attrib None)
                 ([lemma_elem]
                  @ map build_form (entry_forms entry)
                  @ map (build_sense E) (entry_senses entry)
                  @ (if version = ''1.0'' then entry_syntactic_behaviours E entry sbmap
                     else []))))"

definition build_definition :: "env \<Rightarrow> Definition \<Rightarrow> xml" where
  "build_definition E definition =
     Node (Element ''Definition''
             (dict_update
                ((if truthy (def_language definition)
                  then [(''language'', the (def_language definition))] else [])
                 @ (if truthy (def_source_sense definition)
                    then [(''sourceSense'', the (def_source_sense definition))] else []))
                (meta_dict E (def_meta definition)))
             (def_text definition)) []"

definition build_ili_definition :: "env \<Rightarrow> ILIDefinition \<Rightarrow> xml" where
  "build_ili_definition E ili_definition =
     Node (Element ''ILIDefinition'' (meta_dict E (ilidef_meta ili_definition))
             (ilidef_text ili_definition)) []"

definition build_synset_relation :: "env \<Rightarrow> SynsetRelation \<Rightarrow> xml" where
  "build_synset_relation E relation =
     Node (Element ''SynsetRelation''
             (dict_update [(''target'', ssrel_target relation), (''relType'', ssrel_type relation)]
                (meta_dict E (ssrel_meta relation))) None) []"

definition dump_synset :: "env \<Rightarrow> Synset \<Rightarrow> string \<Rightarrow> xml" where
  "dump_synset E synset version =
     (let attrib = [(''id'', synset_id synset)]
            @ (if synset_ili synset \<noteq> [] then [(''ili'', synset_ili synset)] else [])
            @ (if synset_pos synset \<noteq> [] then [(''partOfSpeech'', synset_pos synset)] else []);
          attrib = dict_update attrib (meta_dict E (synset_meta synset));
          attrib = (if \<not> synset_lexicalized synset then dict_set attrib ''lexicalized'' ''false''
                    else attrib)
      in Node (Element ''Synset'' attrib None)
           (map (build_definition E) (synset_definitions synset)
            @ (case synset_ili_definition synset of
                 None \<Rightarrow> []
               | Some d \<Rightarrow> [build_ili_definition E d])
            @ map (build_synset_relation E) (synset_relations synset)
            @ map build_example (synset_examples synset)))"

text \<open>A list of results that may each be an error: the first error, or all the values.\<close>

fun collect :: "(error + 'a) list \<Rightarrow> error + 'a list" where
  "collect [] = Inr []"
| "collect (Inl e # rs) = Inl e"
| "collect (Inr x # rs) = (case collect rs of Inl e \<Rightarrow> Inl e | Inr xs \<Rightarrow> Inr (x # xs))"

definition dump_lexicon :: "env \<Rightarrow> Lexicon \<Rightarrow> string \<Rightarrow> error + xml" where
  "dump_lexicon E lexicon version =
     (let attrib = [(''id'', lex_id lexicon), (''label'', lex_label lexicon),
                    (''language'', lex_language lexicon), (''email'', lex_email lexicon),
                    (''license'', lex_license lexicon), (''version'', lex_version lexicon)]
            @ (if truthy (lex_url lexicon) then [(''url'', the (lex_url lexicon))] else [])
            @ (if truthy (lex_citation lexicon) then [(''citation'', the (lex_citation lexicon))]
               else []);
          attrib = dict_update attrib (meta_dict E (lex_meta lexicon));
          sbmap = build_sbmap version (lex_syntactic_behaviours lexicon)
      in case collect (map (\<lambda>entry. dump_lexical_entry E entry sbmap version)
                         (lex_lexical_entries lexicon)) of
           Inl e \<Rightarrow> Inl e
         | Inr entries \<Rightarrow>
             Inr (Node (Element ''Lexicon'' attrib None)
                    (entries @ map (\<lambda>synset. dump_synset E synset version)
                                 (lex_synsets lexicon))))"

text \<open>
  \<^verbatim>\<open>dump\<close>: the two header lines, and the document tree with the namespace declaration
  of the schema version on its root.
\<close>

definition dump :: "env \<Rightarrow> LexicalResource \<Rightarrow> string \<Rightarrow> error + (string \<times> xml)" where
  "dump E lexicons version =
     (case getitem SCHEMAS version of Inl e \<Rightarrow> Inl e | Inr schema \<Rightarrow>
     (case getitem DC_URIS version of Inl e \<Rightarrow> Inl e | Inr dc_uri \<Rightarrow>
     (case collect (map (\<lambda>lexicon. dump_lexicon E lexicon version) lexicons) of
        Inl e \<Rightarrow> Inl e
      | Inr elems \<Rightarrow>
          Inr (XMLDECL @ [CHR 0x0A] @ DOCTYPE schema @ [CHR 0x0A],
               Node (Element ''LexicalResource'' [(''xmlns:dc'', dc_uri)] None) elems))))"

text \<open>
  An entry with two senses and one frame that lists both, for the regrouping at version 1.0.
\<close>

definition sense_of :: "string \<Rightarrow> Sense" where
  "sense_of sid =
     \<lparr>sense_id = sid, sense_synset = ''ss'', sense_relations = [], sense_examples = [],
      sense_counts = [], sense_lexicalized = True, sense_adjposition = [],
      sense_external = False, sense_meta = None\<rparr>"

definition entry2 :: LexicalEntry where
  "entry2 =
     \<lparr>entry_id = ''e'',
      entry_lemma = Some \<lparr>lemma_form = ''w'', lemma_pos = ''n'', lemma_script = None,
                           lemma_tags = []\<rparr>,
      entry_forms = [], entry_senses = [sense_of ''s1'', sense_of ''s2''],
      entry_external = False, entry_meta = None\<rparr>"

definition frame12 :: SyntacticBehaviour where
  "frame12 = \<lparr>sb_frame = ''f'', sb_senses = [''s1'', ''s2'']\<rparr>"

text \<open>Number of start tags in a stream whose name is one of \<open>names\<close>.\<close>

definition is_start :: "string list \<Rightarrow> event \<Rightarrow> bool" where
  "is_start names ev = (case ev of Start elem \<Rightarrow> elem_tag elem \<in> set names | _ \<Rightarrow> False)"

definition n_starts :: "string list \<Rightarrow> event list \<Rightarrow> nat" where
  "n_starts names evs = length (filter (is_start names) evs)"

text \<open>\<^verbatim>\<open>counts.get(name, 0)\<close> on a scanner record.\<close>

definition count_of :: "info \<Rightarrow> string \<Rightarrow> nat" where
  "count_of i name = (case info_counts i name of None \<Rightarrow> 0 | Some c \<Rightarrow> c)"

text \<open>Immediate children of an element with a given tag.\<close>

fun xml_elem :: "xml \<Rightarrow> Element" where
  "xml_elem (Node e children) = e"

fun xml_children :: "xml \<Rightarrow> xml list" where
  "xml_children (Node e children) = children"

definition child_count :: "xml \<Rightarrow> string \<Rightarrow> nat" where
  "child_count t name = length (filter (\<lambda>c. elem_tag (xml_elem c) = name) (xml_children t))"

definition lexicon_attrs :: attrs where
  "lexicon_attrs =
     [(''id'', ''L''), (''label'', ''l''), (''language'', ''en''), (''email'', ''e''),
      (''license'', ''lic''), (''version'', ''1'')]"

definition small_lexicon :: xml where
  "small_lexicon =
     Node (Element ''Lexicon'' lexicon_attrs None)
       [Node (Element ''LexicalEntry'' [(''id'', ''e1'')] None)
          [Node (Element ''Lemma'' [(''writtenForm'', ''w''), (''partOfSpeech'', ''n'')] None) []]]"

definition small_doc :: xml where
  "small_doc = Node (Element ''LexicalResource'' [] None) [small_lexicon]"

text \<open>
  The metadata of an element: what \<^verbatim>\<open>_get_metadata\<close> returns for its attributes. It does
  not depend on the loader's state.
\<close>

definition element_meta :: "env \<Rightarrow> attrs \<Rightarrow> string \<Rightarrow> Metadata option" where
  "element_meta E a version =
     (case get_metadata E a version ([], []) of Inl e \<Rightarrow> None | Inr (m, st) \<Rightarrow> m)"

text \<open>Elements without children, as the events of a document.\<close>

definition leaf_events :: "string \<Rightarrow> attrs \<Rightarrow> event list" where
  "leaf_events tag a = [Start (Element tag a None), End (Element tag a None)]"

text \<open>What a loader returns, without the diagnostics: the error, or the value and the cursor.\<close>

definition outcome :: "error + ('a \<times> state) \<Rightarrow> error + ('a \<times> event list)" where
  "outcome r = (case r of Inl e \<Rightarrow> Inl e | Inr (x, st) \<Rightarrow> Inr (x, fst st))"

section \<open>Properties\<close>

subsection \<open>The header\<close>

lemma DOCTYPES_keys_valid:
  "map_of DOCTYPES d = Some v \<Longrightarrow> valid_utf8 (map of_char d)"
  by (auto simp: DOCTYPES_def SCHEMAS_def DOCTYPE_def cont_def split: if_splits)

lemma DOCTYPES_versions:
  "map_of DOCTYPES d = Some v \<Longrightarrow>
     (v = ''1.0'' \<or> v = ''1.1'') \<and> (\<exists>schema. map_of SCHEMAS v = Some schema \<and> d = DOCTYPE schema)"
  by (auto simp: DOCTYPES_def SCHEMAS_def split: if_splits)

lemma read_header_Inr:
  "(read_header fh = Inr v) =
     (norm_line (header_line1 fh) = XMLDECL \<and>
      map_of DOCTYPES (norm_line (header_line2 fh)) = Some v)"
  by (auto simp: read_header_def norm_line_def header_line1_def header_line2_def
        decode_utf8_def DOCTYPES_keys_valid split: prod.splits sum.splits option.splits)

lemma readline_newline:
  "CHR 0x0A \<notin> set l \<Longrightarrow> readline (l @ CHR 0x0A # rest) = (l @ [CHR 0x0A], rest)"
  by (simp add: readline_def dropWhile_append3 takeWhile_append2 takeWhile_tail dropWhile_append)

lemma read_header_bad_decl:
  "norm_line (header_line1 fh) \<noteq> XMLDECL \<Longrightarrow>
     read_header fh = Inl (LMFError ''invalid or missing XML declaration'')"
  by (auto simp: read_header_def norm_line_def header_line1_def split: prod.splits)

lemma read_header_xml_1_1:
  "read_header (''<?xml version=\"1.1\"?>'' @ CHR 0x0A # rest) =
     Inl (LMFError ''invalid or missing XML declaration'')"
proof -
  have "header_line1 (''<?xml version=\"1.1\"?>'' @ CHR 0x0A # rest) =
      ''<?xml version=\"1.1\"?>'' @ [CHR 0x0A]"
    unfolding header_line1_def by (subst readline_newline) simp_all
  then show ?thesis
    by (intro read_header_bad_decl)
       (simp add: norm_line_def rstrip_def isspace_def replace_def XMLDECL_def)
qed

text \<open>
  Claim C4 (amended). \<^verbatim>\<open>_read_header\<close> succeeds with version \<open>v\<close> exactly when the first
  line, after stripping trailing whitespace and normalising quotes, equals the required XML
  declaration and the second line, normalised the same way, is the document-type string of
  \<open>v\<close>; it fails with an error exactly when the first line differs or the second is no
  known document-type string; a returned version is "1.0" or "1.1", the one the matched
  document type belongs to; and an input whose first line is \<^verbatim>\<open><?xml version="1.1"?>\<close>
  fails.
\<close>

theorem read_header_accepts_iff:
  "(read_header fh = Inr v) =
     (norm_line (header_line1 fh) = XMLDECL \<and>
      map_of DOCTYPES (norm_line (header_line2 fh)) = Some v) \<and>
   ((\<exists>e. read_header fh = Inl e) =
     (norm_line (header_line1 fh) \<noteq> XMLDECL \<or>
      map_of DOCTYPES (norm_line (header_line2 fh)) = None)) \<and>
   (read_header fh = Inr v \<longrightarrow>
      (v = ''1.0'' \<or> v = ''1.1'') \<and>
      (\<exists>schema. map_of SCHEMAS v = Some schema \<and> norm_line (header_line2 fh) = DOCTYPE schema)) \<and>
   read_header (''<?xml version=\"1.1\"?>'' @ CHR 0x0A # rest) =
     Inl (LMFError ''invalid or missing XML declaration'')"
proof -
  have fails: "(\<exists>e. read_header fh = Inl e) = (\<forall>w. read_header fh \<noteq> Inr w)"
    by (cases "read_header fh") auto
  have "(\<exists>e. read_header fh = Inl e) =
     (norm_line (header_line1 fh) \<noteq> XMLDECL \<or>
      map_of DOCTYPES (norm_line (header_line2 fh)) = None)"
    unfolding fails read_header_Inr by auto
  moreover have "read_header fh = Inr v \<longrightarrow>
      (v = ''1.0'' \<or> v = ''1.1'') \<and>
      (\<exists>schema. map_of SCHEMAS v = Some schema \<and> norm_line (header_line2 fh) = DOCTYPE schema)"
    unfolding read_header_Inr using DOCTYPES_versions by blast
  ultimately show ?thesis
    using read_header_Inr read_header_xml_1_1 by blast
qed

lemma XMLDECL_no_newline: "CHR 0x0A \<notin> set XMLDECL"
  by (simp add: XMLDECL_def)

lemma read_header_good: "read_header good_header = Inr ''1.1''"
  by (simp add: read_header_def good_header_def readline_newline XMLDECL_no_newline)
     (simp add: XMLDECL_def DOCTYPE_def readline_def rstrip_def isspace_def replace_def
        decode_utf8_def cont_def DOCTYPES_def SCHEMAS_def)

text \<open>Witness for C4: the well-formed 1.1 header is accepted and yields "1.1".\<close>

theorem read_header_accepts_iff_witness:
  "read_header good_header = Inr ''1.1'' \<and>
   norm_line (header_line1 good_header) = XMLDECL \<and>
   norm_line (header_line2 good_header) =
     DOCTYPE ''http://globalwordnet.github.io/schemas/WN-LMF-1.1.dtd''"
  using read_header_accepts_iff [of good_header "''1.1''"] read_header_good
  by (auto simp: SCHEMAS_def)

text \<open>
  Counterexample to C4 as stated: a first line with two trailing blanks does not match the
  declaration exactly after quote normalisation alone, yet the header is accepted.
\<close>

theorem read_header_trailing_space_counterexample:
  "header_line1 (XMLDECL @ ''  '' @ CHR 0x0A #
       DOCTYPE ''http://globalwordnet.github.io/schemas/WN-LMF-1.0.dtd'' @ [CHR 0x0A])
     = XMLDECL @ ''  '' @ [CHR 0x0A] \<and>
   replace (CHR 0x27) (CHR 0x22) (XMLDECL @ ''  '') \<noteq> XMLDECL \<and>
   read_header (XMLDECL @ ''  '' @ CHR 0x0A #
       DOCTYPE ''http://globalwordnet.github.io/schemas/WN-LMF-1.0.dtd'' @ [CHR 0x0A])
     = Inr ''1.0''"
  by (simp add: header_line1_def read_header_def XMLDECL_def DOCTYPE_def readline_def
        rstrip_def isspace_def replace_def decode_utf8_def cont_def DOCTYPES_def SCHEMAS_def)

text \<open>
  Claim C10 at a failing input: an XML file whose first line is the required declaration and
  whose second line is not valid UTF-8. \<^verbatim>\<open>_read_header\<close> raises \<^verbatim>\<open>UnicodeDecodeError\<close>,
  which \<^verbatim>\<open>is_lmf\<close> does not catch: the exception leaves \<^verbatim>\<open>is_lmf\<close>.
\<close>

theorem is_lmf_undecodable_doctype:
  "is_lmf (\<lambda>source. True) (XMLDECL @ [CHR 0x0A, CHR 0xFF, CHR 0x0A]) = Inl UnicodeDecodeError"
  by (simp add: is_lmf_def read_header_def XMLDECL_def readline_def
        rstrip_def isspace_def replace_def decode_utf8_def cont_def)

text \<open>What \<^verbatim>\<open>is_lmf\<close> returns in every case.\<close>

lemma is_lmf_cases:
  "is_lmf is_xml source =
     (if \<not> is_xml source then Inr False
      else if norm_line (header_line1 source) \<noteq> XMLDECL then Inr False
      else if \<not> valid_utf8 (map of_char (norm_line (header_line2 source))) then Inl UnicodeDecodeError
      else Inr (map_of DOCTYPES (norm_line (header_line2 source)) \<noteq> None))"
  by (auto simp: is_lmf_def read_header_def norm_line_def header_line1_def header_line2_def
        decode_utf8_def split: prod.splits sum.splits option.splits error.splits)

subsection \<open>Metadata\<close>

lemma slot_keys_length:
  "version = ''1.0'' \<or> version = ''1.1'' \<Longrightarrow> length (slot_keys version) = 17"
  by (auto simp: slot_keys_def DC_QNAME_PAIRS_def DC_URIS_def DC_ATTRS_def)

lemma get_metadata_result:
  assumes "map_of DC_QNAME_PAIRS version = Some pairs"
  shows "\<exists>m st'. get_metadata E attrs version st = Inr (m, st') \<and> fst st' = fst st \<and>
           (m = None) = (\<forall>k \<in> set (slot_keys version). map_of attrs k = None) \<and>
           (\<forall>slots. m = Some slots \<longrightarrow>
              map (\<lambda>s. s \<noteq> None) slots = map (\<lambda>k. map_of attrs k \<noteq> None) (slot_keys version))"
  using assms
  by (cases st)
     (auto simp: get_metadata_def getitem_def slot_keys_def Let_def comp_def warn_def
        split: option.splits prod.splits if_splits; force)


lemma get_metadata_state:
  "get_metadata E a version st =
     (case get_metadata E a version ([], []) of
        Inl e \<Rightarrow> Inl e
      | Inr (m, st0) \<Rightarrow> Inr (m, (fst st, snd st @ snd st0)))"
  unfolding get_metadata_def Let_def warn_def
  by (cases "getitem DC_QNAME_PAIRS version"; cases "map_of a ''confidenceScore''";
      cases "py_float E (the (map_of a ''confidenceScore''))")
     (simp_all split: if_splits)

lemma get_metadata_meta:
  "get_metadata E a version st = Inr (m, st') \<Longrightarrow> m = element_meta E a version"
  by (subst (asm) get_metadata_state) (auto simp: element_meta_def split: sum.splits)

lemma element_meta_result:
  assumes "version = ''1.0'' \<or> version = ''1.1''"
  shows "(element_meta E a version = None) = (\<forall>k \<in> set (slot_keys version). map_of a k = None) \<and>
         (\<forall>slots. element_meta E a version = Some slots \<longrightarrow>
            map (\<lambda>s. s \<noteq> None) slots = map (\<lambda>k. map_of a k \<noteq> None) (slot_keys version))"
proof -
  from assms obtain pairs where "map_of DC_QNAME_PAIRS version = Some pairs"
    by (auto simp: DC_QNAME_PAIRS_def DC_URIS_def)
  from get_metadata_result [OF this, of E a "([], [])"] obtain m st' where
    m: "get_metadata E a version ([], []) = Inr (m, st')"
      "(m = None) = (\<forall>k \<in> set (slot_keys version). map_of a k = None)"
      "\<forall>slots. m = Some slots \<longrightarrow>
         map (\<lambda>s. s \<noteq> None) slots = map (\<lambda>k. map_of a k \<noteq> None) (slot_keys version)"
    by blast
  from m(1) have "element_meta E a version = m"
    by (simp add: element_meta_def)
  with m(2,3) show ?thesis by simp
qed

lemma load_lexicon_meta:
  "load_lexicon E version (Start elem # evs, ws) = Inr (x, st') \<Longrightarrow>
     lex_meta x = element_meta E (elem_attrib elem) version"
  unfolding load_lexicon_def Let_def
  by (auto split: sum.splits prod.splits if_splits dest!: start_ev_Inr get_metadata_meta)

lemma load_lexical_entry_meta:
  "load_lexical_entry E version (Start elem # evs, ws) = Inr ((x, sbs), st') \<Longrightarrow>
     entry_meta x = element_meta E (elem_attrib elem) version"
  by (auto simp: load_lexical_entry_def Let_def split: sum.splits prod.splits
        dest!: start_ev_Inr get_metadata_meta)

lemma load_sense_meta:
  "load_sense E version (Start elem # evs, ws) = Inr (x, st') \<Longrightarrow>
     sense_meta x = element_meta E (elem_attrib elem) version"
  by (auto simp: load_sense_def Let_def split: sum.splits prod.splits
        dest!: start_ev_Inr get_metadata_meta)

lemma load_synset_meta:
  "load_synset E version (Start elem # evs, ws) = Inr (x, st') \<Longrightarrow>
     synset_meta x = element_meta E (elem_attrib elem) version"
  by (auto simp: load_synset_def Let_def split: sum.splits prod.splits
        dest!: start_ev_Inr get_metadata_meta)

lemma next_end_ev:
  "next_ev (ev # End elem # evs, ws) = Inr (ev', st1) \<Longrightarrow> end_ev tags st1 = Inr (elem', st2) \<Longrightarrow>
     elem' = elem"
  by (auto simp: end_ev_def next_ev_def split: if_splits)

lemma load_sense_relation_meta:
  "load_sense_relation E version (ev # End elem # evs, ws) = Inr (x, st') \<Longrightarrow>
     srel_meta x = element_meta E (elem_attrib elem) version"
  by (auto simp: load_sense_relation_def Let_def
        split: sum.splits prod.splits if_splits dest!: get_metadata_meta dest: next_end_ev)

lemma load_synset_relation_meta:
  "load_synset_relation E version (ev # End elem # evs, ws) = Inr (x, st') \<Longrightarrow>
     ssrel_meta x = element_meta E (elem_attrib elem) version"
  by (auto simp: load_synset_relation_def Let_def
        split: sum.splits prod.splits if_splits dest!: get_metadata_meta dest: next_end_ev)

lemma load_example_meta:
  "load_example E version (ev # End elem # evs, ws) = Inr (x, st') \<Longrightarrow>
     ex_meta x = element_meta E (elem_attrib elem) version"
  by (auto simp: load_example_def Let_def
        split: sum.splits prod.splits if_splits dest!: get_metadata_meta dest: next_end_ev)

lemma load_count_meta:
  "load_count E version (ev # End elem # evs, ws) = Inr (x, st') \<Longrightarrow>
     count_meta x = element_meta E (elem_attrib elem) version"
  by (auto simp: load_count_def Let_def
        split: sum.splits prod.splits if_splits option.splits
        dest!: get_metadata_meta dest: next_end_ev)

lemma load_definition_meta:
  "load_definition E version (ev # End elem # evs, ws) = Inr (x, st') \<Longrightarrow>
     def_meta x = element_meta E (elem_attrib elem) version"
  by (auto simp: load_definition_def Let_def
        split: sum.splits prod.splits if_splits dest!: get_metadata_meta dest: next_end_ev)

lemma load_ilidefinition_meta:
  "load_ilidefinition E version (ev # End elem # evs, ws) = Inr (Some x, st') \<Longrightarrow>
     ilidef_meta x = element_meta E (elem_attrib elem) version"
  by (auto simp: load_ilidefinition_def Let_def
        split: sum.splits prod.splits if_splits dest!: get_metadata_meta dest: next_end_ev)

lemma load_external_meta:
  "load_external_lexical_entry E version st = Inr ((entry, sbs), st') \<Longrightarrow> entry_meta entry = None"
  "load_external_sense E version st = Inr (sense, st') \<Longrightarrow> sense_meta sense = None"
  "load_external_synset E version st = Inr (synset, st') \<Longrightarrow> synset_meta synset = None"
  by (auto simp: load_external_lexical_entry_def load_external_sense_def load_external_synset_def
        Let_def split: sum.splits prod.splits)

text \<open>
  Claim C6 (amended). For either schema version there are 17 slots (the 14 qualified
  descriptive attributes, \<^verbatim>\<open>status\<close>, \<^verbatim>\<open>note\<close>, the confidence score). The metadata
  of an element is absent exactly when none of the 17 attributes is present on it, and
  otherwise a record whose slots are filled exactly where the attribute is present (also
  when its text is empty). Every entity loaded from a \<^verbatim>\<open>Lexicon\<close>, \<^verbatim>\<open>LexicalEntry\<close>,
  \<^verbatim>\<open>Sense\<close>, \<^verbatim>\<open>Synset\<close>, \<^verbatim>\<open>SenseRelation\<close>, \<^verbatim>\<open>SynsetRelation\<close>, \<^verbatim>\<open>Example\<close>,
  \<^verbatim>\<open>Count\<close>, \<^verbatim>\<open>Definition\<close> or \<^verbatim>\<open>ILIDefinition\<close> element carries the metadata of
  that element; an entity loaded from an \<^verbatim>\<open>ExternalLexicalEntry\<close>, \<^verbatim>\<open>ExternalSense\<close> or
  \<^verbatim>\<open>ExternalSynset\<close> element never has metadata.
\<close>

theorem metadata_attached_iff:
  assumes "version = ''1.0'' \<or> version = ''1.1''"
  shows
    "length (slot_keys version) = 17 \<and>
     (element_meta E a version = None) = (\<forall>k \<in> set (slot_keys version). map_of a k = None) \<and>
     (\<forall>slots. element_meta E a version = Some slots \<longrightarrow>
        map (\<lambda>s. s \<noteq> None) slots = map (\<lambda>k. map_of a k \<noteq> None) (slot_keys version)) \<and>
     (\<forall>x st'. load_lexicon E version (Start elem # evs, ws) = Inr (x, st') \<longrightarrow>
        lex_meta x = element_meta E (elem_attrib elem) version) \<and>
     (\<forall>x sbs st'. load_lexical_entry E version (Start elem # evs, ws) = Inr ((x, sbs), st') \<longrightarrow>
        entry_meta x = element_meta E (elem_attrib elem) version) \<and>
     (\<forall>x st'. load_sense E version (Start elem # evs, ws) = Inr (x, st') \<longrightarrow>
        sense_meta x = element_meta E (elem_attrib elem) version) \<and>
     (\<forall>x st'. load_synset E version (Start elem # evs, ws) = Inr (x, st') \<longrightarrow>
        synset_meta x = element_meta E (elem_attrib elem) version) \<and>
     (\<forall>x st'. load_sense_relation E version (ev # End elem # evs, ws) = Inr (x, st') \<longrightarrow>
        srel_meta x = element_meta E (elem_attrib elem) version) \<and>
     (\<forall>x st'. load_synset_relation E version (ev # End elem # evs, ws) = Inr (x, st') \<longrightarrow>
        ssrel_meta x = element_meta E (elem_attrib elem) version) \<and>
     (\<forall>x st'. load_example E version (ev # End elem # evs, ws) = Inr (x, st') \<longrightarrow>
        ex_meta x = element_meta E (elem_attrib elem) version) \<and>
     (\<forall>x st'. load_count E version (ev # End elem # evs, ws) = Inr (x, st') \<longrightarrow>
        count_meta x = element_meta E (elem_attrib elem) version) \<and>
     (\<forall>x st'. load_definition E version (ev # End elem # evs, ws) = Inr (x, st') \<longrightarrow>
        def_meta x = element_meta E (elem_attrib elem) version) \<and>
     (\<forall>x st'. load_ilidefinition E version (ev # End elem # evs, ws) = Inr (Some x, st') \<longrightarrow>
        ilidef_meta x = element_meta E (elem_attrib elem) version) \<and>
     (\<forall>x sbs st'. load_external_lexical_entry E version st = Inr ((x, sbs), st') \<longrightarrow>
        entry_meta x = None) \<and>
     (\<forall>x st'. load_external_sense E version st = Inr (x, st') \<longrightarrow> sense_meta x = None) \<and>
     (\<forall>x st'. load_external_synset E version st = Inr (x, st') \<longrightarrow> synset_meta x = None)"
  using slot_keys_length [OF assms] element_meta_result [OF assms, of E a]
    load_lexicon_meta [of E version elem evs ws]
    load_lexical_entry_meta [of E version elem evs ws]
    load_sense_meta [of E version elem evs ws]
    load_synset_meta [of E version elem evs ws]
    load_sense_relation_meta [of E version ev elem evs ws]
    load_synset_relation_meta [of E version ev elem evs ws]
    load_example_meta [of E version ev elem evs ws]
    load_count_meta [of E version ev elem evs ws]
    load_definition_meta [of E version ev elem evs ws]
    load_ilidefinition_meta [of E version ev elem evs ws]
    load_external_meta [of E version st]
  by blast

text \<open>
  Witness for C6: at version 1.0, a \<^verbatim>\<open>Sense\<close> element with a \<^verbatim>\<open>note\<close> loads with the
  record whose sixteenth slot holds the note, and one without any of the 17 attributes loads
  without metadata.
\<close>

theorem metadata_attached_iff_witness:
  "(case load_sense E0 ''1.0''
           (leaf_events ''Sense'' [(''id'', ''s1''), (''synset'', ''ss''), (''note'', ''n'')], []) of
      Inr (s, st) \<Rightarrow> sense_meta s = Some (replicate 15 None @ [Some (PyStr ''n''), None])
    | Inl e \<Rightarrow> False) \<and>
   (case load_sense E0 ''1.0'' (leaf_events ''Sense'' [(''id'', ''s1''), (''synset'', ''ss'')], []) of
      Inr (s, st) \<Rightarrow> sense_meta s = None
    | Inl e \<Rightarrow> False) \<and>
   length (slot_keys ''1.0'') = 17"
  using metadata_attached_iff [of "''1.0''" E0 "[(''id'', ''s1''), (''synset'', ''ss''), (''note'', ''n'')]"]
  by (simp add: leaf_events_def load_sense_def start_ev_def end_ev_def next_ev_def getitem_def
        load_sense_relations.simps load_examples.simps load_counts.simps starts_def
        get_bool_def get_literal_def get_metadata_def DC_QNAME_PAIRS_def DC_URIS_def DC_ATTRS_def
        E0_def ascii_lower_def ascii_lower_char_def numeral_eq_Suc)

text \<open>
  Counterexamples to C6 as stated. An \<^verbatim>\<open>ExternalSense\<close> with a \<^verbatim>\<open>note\<close> (version 1.1,
  inside an \<^verbatim>\<open>ExternalLexicalEntry\<close>) loads without metadata although one of the 17 slots
  is non-empty; and an element whose only such attribute is \<^verbatim>\<open>status\<close> with empty text
  gets a record all of whose slots are absent or empty.
\<close>

theorem metadata_external_counterexample:
  "(case load_senses E0 True ''1.1''
           (leaf_events ''ExternalSense'' [(''id'', ''s1''), (''note'', ''n'')], []) of
      Inr ([s], st) \<Rightarrow> sense_meta s = None \<and> sense_external s
    | _ \<Rightarrow> False) \<and>
   element_meta E0 [(''id'', ''s1''), (''note'', ''n'')] ''1.1'' \<noteq> None \<and>
   element_meta E0 [(''status'', [])] ''1.0'' =
     Some (replicate 14 None @ [Some (PyStr []), None, None])"
  by (simp add: leaf_events_def load_senses.simps load_external_sense_def
        start_ev_def end_ev_def next_ev_def getitem_def
        load_sense_relations.simps load_examples.simps load_counts.simps starts_def
        element_meta_def get_metadata_def DC_QNAME_PAIRS_def DC_URIS_def DC_ATTRS_def
        E0_def numeral_eq_Suc)

subsection \<open>Regrouping of syntactic behaviours at version 1.0\<close>

lemma sbmap_frame12:
  "build_sbmap ''1.0'' [frame12] = [''s1'' \<mapsto> [frame12], ''s2'' \<mapsto> [frame12]]"
  by (simp add: build_sbmap_def frame12_def sbmap_append_def)

text \<open>
  Claim C2 at a failing input: an entry with the senses \<open>s1\<close> and \<open>s2\<close>, and one recorded
  frame \<open>f\<close> that lists both. At version 1.0 \<^verbatim>\<open>_dump_lexical_entry\<close> emits the element of
  \<open>f\<close> twice, once for each sense id under which \<^verbatim>\<open>sbmap\<close> holds the frame, each time
  with the whole sorted intersection.
\<close>

theorem dump_lexical_entry_repeats_frame:
  "dump_lexical_entry E0 entry2 (build_sbmap ''1.0'' [frame12]) ''1.0'' =
     Inr (Node (Element ''LexicalEntry'' [(''id'', ''e'')] None)
            [Node (Element ''Lemma'' [(''writtenForm'', ''w''), (''partOfSpeech'', ''n'')] None) [],
             Node (Element ''Sense'' [(''id'', ''s1''), (''synset'', ''ss'')] None) [],
             Node (Element ''Sense'' [(''id'', ''s2''), (''synset'', ''ss'')] None) [],
             Node (Element ''SyntacticBehaviour''
                     [(''subcategorizationFrame'', ''f''), (''senses'', ''s1 s2'')] None) [],
             Node (Element ''SyntacticBehaviour''
                     [(''subcategorizationFrame'', ''f''), (''senses'', ''s1 s2'')] None) []])"
  unfolding sbmap_frame12
  by (simp add: dump_lexical_entry_def entry_syntactic_behaviours_def entry2_def sense_of_def
        frame12_def E0_def meta_dict_def dict_update_def build_lemma_def truthy_def
        build_sense_def build_syntactic_behaviour_1_0_def sorted_intersection_def
        less_eq_char_def Let_def)

subsection \<open>The scanner\<close>

lemma n_starts_simps [simp]:
  "n_starts names [] = 0"
  "n_starts names (Start elem # evs) = (if elem_tag elem \<in> set names then 1 else 0) + n_starts names evs"
  "n_starts names (End elem # evs) = n_starts names evs"
  "n_starts names (Malformed # evs) = n_starts names evs"
  "n_starts names (xs @ ys) = n_starts names xs + n_starts names ys"
  by (simp_all add: n_starts_def is_start_def)

text \<open>
  Counterexample to C9 as stated: in a lexicon whose only child is a \<^verbatim>\<open>LexicalEntry\<close>
  holding a \<^verbatim>\<open>Lemma\<close>, the scanner records one \<^verbatim>\<open>Lemma\<close>, which is no immediate
  child of the resource.
\<close>

theorem scan_counts_descendants_counterexample:
  "(case scan_lexicons True (iterparse small_doc) of
      Inr [i] \<Rightarrow> info_counts i ''Lemma'' = Some 1 \<and> info_counts i ''LexicalEntry'' = Some 1
    | _ \<Rightarrow> False) \<and>
   child_count small_lexicon ''Lemma'' = 0"
  by (simp add: scan_lexicons_def small_doc_def small_lexicon_def lexicon_attrs_def
        scan_start_def child_count_def)

lemma scan_events_append:
  "scan_events infos (xs @ ys) =
     (case scan_events infos xs of Inl e \<Rightarrow> Inl e | Inr infos' \<Rightarrow> scan_events infos' ys)"
  by (induction infos xs rule: scan_events.induct) (auto split: sum.splits)

text \<open>
  Within one resource (no further resource start tag), the scanner only touches the last
  record: it adds, for every name but \<^verbatim>\<open>Extends\<close>, the number of start tags of that name.
\<close>

lemma scan_events_segment:
  assumes "scan_events infos seg = Inr infos'" "infos \<noteq> []"
    "n_starts [''Lexicon'', ''LexiconExtension''] seg = 0"
  shows "length infos' = length infos \<and> butlast infos' = butlast infos \<and>
         (\<forall>name. name \<noteq> ''Extends'' \<longrightarrow>
            count_of (last infos') name = count_of (last infos) name + n_starts [name] seg) \<and>
         info_counts (last infos') ''Extends'' = info_counts (last infos) ''Extends''"
  using assms
proof (induction infos seg arbitrary: infos' rule: scan_events.induct)
  case (1 infos)
  then show ?case by simp
next
  case (2 infos elem evs)
  then show ?case by simp
next
  case (3 infos elem evs)
  from "3.prems" obtain mid where
    m: "scan_start infos (elem_tag elem) (elem_attrib elem) = Inr mid" and
    r: "scan_events mid evs = Inr infos'"
    by (auto split: sum.splits)
  from "3.prems" have t: "elem_tag elem \<noteq> ''Lexicon''" "elem_tag elem \<noteq> ''LexiconExtension''"
    and z: "n_starts [''Lexicon'', ''LexiconExtension''] evs = 0"
    by (auto split: if_splits)
  from m t \<open>infos \<noteq> []\<close> have mid: "mid \<noteq> []" "length mid = length infos"
    "butlast mid = butlast infos"
    "\<forall>name. name \<noteq> ''Extends'' \<longrightarrow>
       count_of (last mid) name =
         count_of (last infos) name + (if elem_tag elem = name then 1 else 0)"
    "info_counts (last mid) ''Extends'' = info_counts (last infos) ''Extends''"
    by (auto simp: scan_start_def count_of_def split: if_splits sum.splits option.splits)
  from "3.IH" [OF m r mid(1) z] mid show ?case
    by auto
next
  case (4 infos evs)
  then show ?case by simp
qed


lemma scan_start_length:
  "scan_start infos name attrs = Inr infos' \<Longrightarrow>
     length infos' = length infos + (if name \<in> set [''Lexicon'', ''LexiconExtension''] then 1 else 0) \<and>
     take (length infos - 1) infos' = take (length infos - 1) infos"
  by (auto simp: scan_start_def butlast_conv_take split: if_splits sum.splits)

lemma scan_events_length:
  "scan_events infos evs = Inr infos' \<Longrightarrow>
     length infos' = length infos + n_starts [''Lexicon'', ''LexiconExtension''] evs \<and>
     take (length infos - 1) infos' = take (length infos - 1) infos"
proof (induction infos evs arbitrary: infos' rule: scan_events.induct)
  case (1 infos)
  then show ?case by simp
next
  case (2 infos elem evs)
  then show ?case by simp
next
  case (3 infos elem evs)
  from "3.prems" obtain mid where
    m: "scan_start infos (elem_tag elem) (elem_attrib elem) = Inr mid" and
    r: "scan_events mid evs = Inr infos'"
    by (auto split: sum.splits)
  note a = scan_start_length [OF m] and b = "3.IH" [OF m r]
  from a b have "length infos' = length infos + n_starts [''Lexicon'', ''LexiconExtension''] (Start elem # evs)"
    by (simp split: if_splits)
  moreover have "take (length infos - 1) infos' = take (length infos - 1) infos"
  proof -
    have "take (length infos - 1) infos' = take (length infos - 1) (take (length mid - 1) infos')"
      using a by (simp add: min_def split: if_splits)
    also have "\<dots> = take (length infos - 1) (take (length mid - 1) mid)"
      using b by simp
    also have "\<dots> = take (length infos - 1) mid"
      using a by (simp add: min_def split: if_splits)
    finally show ?thesis using a by simp
  qed
  ultimately show ?case by blast
next
  case (4 infos evs)
  then show ?case by simp
qed

lemma scan_events_keeps:
  assumes "scan_events infos rest = Inr infos'"
    "rest = [] \<or> is_start [''Lexicon'', ''LexiconExtension''] (hd rest)"
  shows "take (length infos) infos' = infos"
proof (cases rest)
  case Nil
  with assms show ?thesis by simp
next
  case (Cons ev r)
  with assms(2) obtain elem where ev: "ev = Start elem"
    and t: "elem_tag elem \<in> set [''Lexicon'', ''LexiconExtension'']"
    by (auto simp: is_start_def split: event.splits)
  from assms(1) Cons ev obtain mid where
    m: "scan_start infos (elem_tag elem) (elem_attrib elem) = Inr mid" and
    r: "scan_events mid r = Inr infos'"
    by (auto split: sum.splits)
  from m t obtain new where mid: "mid = infos @ [new]"
    by (auto simp: scan_start_def split: if_splits)
  from scan_events_length [OF r] mid show ?thesis by simp
qed

text \<open>
  Claim C9 (amended). For the resource opened by the \<open>k\<close>-th resource start tag of a document,
  with \<open>seg\<close> the events from that tag to the next resource start tag (or to the end), the
  count the scanner records for a name is the number of start tags of that name in \<open>seg\<close>,
  at any depth, for every name but \<^verbatim>\<open>Extends\<close>, for which nothing is recorded.
\<close>

theorem scan_counts_segment:
  assumes "scan_lexicons True (pre @ Start elem # seg @ rest) = Inr infos"
    and "elem_tag elem \<in> set [''Lexicon'', ''LexiconExtension'']"
    and "n_starts [''Lexicon'', ''LexiconExtension''] seg = 0"
    and "rest = [] \<or> is_start [''Lexicon'', ''LexiconExtension''] (hd rest)"
    and "k = n_starts [''Lexicon'', ''LexiconExtension''] pre"
  shows "k < length infos \<and>
         (\<forall>name. name \<noteq> ''Extends'' \<longrightarrow> count_of (infos ! k) name = n_starts [name] seg) \<and>
         info_counts (infos ! k) ''Extends'' = None"
proof -
  from assms(1) have all: "scan_events [] (pre @ Start elem # seg @ rest) = Inr infos"
    by (auto simp: scan_lexicons_def split: sum.splits if_splits)
  then obtain i1 where p: "scan_events [] pre = Inr i1"
    and q: "scan_events i1 (Start elem # seg @ rest) = Inr infos"
    by (auto simp: scan_events_append split: sum.splits)
  from scan_events_length [OF p] assms(5) have k: "length i1 = k" by simp
  define new where "new = \<lparr>info_attrs = filter (\<lambda>(k, v). k \<noteq> ''counts'') (elem_attrib elem),
    info_counts = Map.empty, info_extends = None\<rparr>"
  from q assms(2) have q': "scan_events (i1 @ [new]) (seg @ rest) = Inr infos"
    by (auto simp: scan_start_def new_def)
  then obtain i3 where s: "scan_events (i1 @ [new]) seg = Inr i3"
    and r: "scan_events i3 rest = Inr infos"
    by (auto simp: scan_events_append split: sum.splits)
  from scan_events_segment [OF s _ assms(3)]
  have i3: "length i3 = Suc k"
    "\<forall>name. name \<noteq> ''Extends'' \<longrightarrow> count_of (last i3) name = n_starts [name] seg"
    "info_counts (last i3) ''Extends'' = None"
    using k by (auto simp: count_of_def new_def)
  from scan_events_keeps [OF r assms(4)] have keep: "take (length i3) infos = i3" .
  have "length (take (length i3) infos) = Suc k"
    using keep i3(1) by simp
  then have len: "k < length infos"
    by (simp add: min_def split: if_splits)
  have "infos ! k = take (length i3) infos ! k"
    using i3(1) by simp
  also have "\<dots> = i3 ! k"
    using keep by simp
  also have "\<dots> = last i3"
    using i3(1) by (cases i3 rule: rev_cases) (simp_all add: nth_append)
  finally show ?thesis using i3 len by simp
qed

text \<open>Witness for C9: the counts of the one resource of that document.\<close>

theorem scan_counts_segment_witness:
  "scan_lexicons True (iterparse small_doc) \<noteq> Inl IndexError \<and>
   (case scan_lexicons True (iterparse small_doc) of
      Inr infos \<Rightarrow> count_of (infos ! 0) ''Lemma'' = 1 \<and> count_of (infos ! 0) ''Sense'' = 0
    | Inl e \<Rightarrow> False)"
proof -
  define seg where "seg = [Start (Element ''LexicalEntry'' [(''id'', ''e1'')] None),
       Start (Element ''Lemma'' [(''writtenForm'', ''w''), (''partOfSpeech'', ''n'')] None),
       End (Element ''Lemma'' [(''writtenForm'', ''w''), (''partOfSpeech'', ''n'')] None),
       End (Element ''LexicalEntry'' [(''id'', ''e1'')] None),
       End (Element ''Lexicon'' lexicon_attrs None),
       End (Element ''LexicalResource'' [] None)]"
  have doc: "iterparse small_doc =
      [Start (Element ''LexicalResource'' [] None)] @ Start (Element ''Lexicon'' lexicon_attrs None) # seg @ []"
    by (simp add: small_doc_def small_lexicon_def seg_def)
  obtain infos where ok: "scan_lexicons True (iterparse small_doc) = Inr infos"
    by (simp add: scan_lexicons_def small_doc_def small_lexicon_def lexicon_attrs_def scan_start_def)
  from scan_counts_segment [of "[Start (Element ''LexicalResource'' [] None)]"
      "Element ''Lexicon'' lexicon_attrs None" seg "[]" infos 0] ok doc
  have "\<forall>name. name \<noteq> ''Extends'' \<longrightarrow> count_of (infos ! 0) name = n_starts [name] seg"
    by (simp add: seg_def)
  then have "count_of (infos ! 0) ''Lemma'' = 1 \<and> count_of (infos ! 0) ''Sense'' = 0"
    by (simp add: seg_def)
  with ok show ?thesis by simp
qed

subsection \<open>Enumerated attribute values\<close>

lemma get_bool_eq:
  "get_bool E v st =
     (py_lower E v = ''true'',
      if py_lower E v = ''true'' \<or> py_lower E v = ''false'' then st
      else warn (NotOneOf (py_lower E v) [''true'', ''false'']) st)"
  by (auto simp: get_bool_def get_literal_def)

lemma get_literal_eq:
  "get_literal v choices st =
     (case v of None \<Rightarrow> [] | Some s \<Rightarrow> s,
      case v of None \<Rightarrow> st
      | Some s \<Rightarrow> if s \<in> set choices then st else warn (NotOneOf s choices) st)"
  by (auto simp: get_literal_def split: option.splits)

lemma outcome_simps [simp]:
  "outcome (Inl e) = Inl e"
  "outcome (Inr (x, st)) = Inr (x, fst st)"
  by (simp_all add: outcome_def)

lemma get_metadata_cases:
  "(\<exists>e. \<forall>st. get_metadata E a version st = Inl e) \<or>
   (\<exists>m ws0. \<forall>st. get_metadata E a version st = Inr (m, (fst st, snd st @ ws0)))"
proof (cases "get_metadata E a version ([], [])")
  case (Inl e)
  then have "\<forall>st. get_metadata E a version st = Inl e"
    by (subst get_metadata_state) simp
  then show ?thesis by blast
next
  case (Inr r)
  then have "\<forall>st. get_metadata E a version st = Inr (fst r, (fst st, snd st @ snd (snd r)))"
    by (subst get_metadata_state) (simp add: case_prod_beta)
  then show ?thesis by blast
qed

lemma get_metadata_cong:
  assumes "\<forall>k \<in> set (slot_keys version). map_of a k = map_of a' k"
  shows "get_metadata E a version st = get_metadata E a' version st"
proof (cases "map_of DC_QNAME_PAIRS version")
  case None
  then show ?thesis by (simp add: get_metadata_def getitem_def)
next
  case (Some pairs)
  with assms have k: "\<forall>k \<in> set (map fst pairs @ [''status'', ''note'', ''confidenceScore'']).
      map_of a k = map_of a' k"
    by (simp add: slot_keys_def)
  then have "map (\<lambda>(qname, attr). map_option PyStr (map_of a qname)) pairs =
      map (\<lambda>(qname, attr). map_option PyStr (map_of a' qname)) pairs"
    by (intro map_cong) auto
  moreover from k have "map_of a ''status'' = map_of a' ''status''"
    "map_of a ''note'' = map_of a' ''note''"
    "map_of a ''confidenceScore'' = map_of a' ''confidenceScore''"
    by simp_all
  ultimately show ?thesis
    unfolding get_metadata_def getitem_def by (simp only: Some option.case sum.case)
qed

lemma lexicalized_no_slot: "''lexicalized'' \<notin> set (slot_keys version)"
  by (auto simp: slot_keys_def DC_QNAME_PAIRS_def DC_URIS_def DC_ATTRS_def split: if_splits)

lemma end_ev_state:
  "end_ev tags st =
     (case end_ev tags (fst st, []) of
        Inl e \<Rightarrow> Inl e
      | Inr (elem, st0) \<Rightarrow> Inr (elem, (fst st0, snd st)))"
  by (cases st) (auto simp: end_ev_def next_ev_def split: list.splits event.splits)

lemma load_sense_lexicalized:
  assumes v: "map_of a ''lexicalized'' = Some v" "py_lower E v \<noteq> ''true''"
      "py_lower E v \<noteq> ''false''"
    and a': "map_of a' = (map_of a)(''lexicalized'' \<mapsto> v')" "py_lower E v' = ''false''"
  shows "outcome (load_sense E version (Start (Element tag a t) # evs, ws)) =
           outcome (load_sense E version (Start (Element tag a' t) # evs, ws)) \<and>
         (\<forall>s st'. load_sense E version (Start (Element tag a t) # evs, ws) = Inr (s, st') \<longrightarrow>
            \<not> sense_lexicalized s \<and>
            NotOneOf (py_lower E v) [''true'', ''false''] \<in> set (snd st'))"
proof -
  define er where "er = (\<lambda>tags evs. end_ev tags (evs, []))"
  define mr where "mr = (\<lambda>b. get_metadata E b version ([], []))"
  have ee: "end_ev tags st =
      (case er tags (fst st) of Inl e \<Rightarrow> Inl e
       | Inr (elem, st0) \<Rightarrow> Inr (elem, (fst st0, snd st)))" for tags st
    unfolding er_def by (rule end_ev_state)
  have me: "get_metadata E b version st =
      (case mr b of Inl e \<Rightarrow> Inl e
       | Inr (m, st0) \<Rightarrow> Inr (m, (fst st, snd st @ snd st0)))" for b st
    unfolding mr_def by (rule get_metadata_state)
  have gm: "mr a' = mr a"
    unfolding mr_def by (rule get_metadata_cong) (simp add: a' lexicalized_no_slot)
  show ?thesis
    by (auto simp: load_sense_def start_ev_def next_ev_def getitem_def ee me gm a' v
          get_bool_eq get_literal_eq warn_def Let_def
          split: sum.splits prod.splits option.splits)
qed

lemma load_synset_lexicalized:
  assumes v: "map_of a ''lexicalized'' = Some v" "py_lower E v \<noteq> ''true''"
      "py_lower E v \<noteq> ''false''"
    and a': "map_of a' = (map_of a)(''lexicalized'' \<mapsto> v')" "py_lower E v' = ''false''"
  shows "outcome (load_synset E version (Start (Element tag a t) # evs, ws)) =
           outcome (load_synset E version (Start (Element tag a' t) # evs, ws)) \<and>
         (\<forall>s st'. load_synset E version (Start (Element tag a t) # evs, ws) = Inr (s, st') \<longrightarrow>
            \<not> synset_lexicalized s \<and>
            NotOneOf (py_lower E v) [''true'', ''false''] \<in> set (snd st'))"
proof -
  define er where "er = (\<lambda>tags evs. end_ev tags (evs, []))"
  define mr where "mr = (\<lambda>b. get_metadata E b version ([], []))"
  have ee: "end_ev tags st =
      (case er tags (fst st) of Inl e \<Rightarrow> Inl e
       | Inr (elem, st0) \<Rightarrow> Inr (elem, (fst st0, snd st)))" for tags st
    unfolding er_def by (rule end_ev_state)
  have me: "get_metadata E b version st =
      (case mr b of Inl e \<Rightarrow> Inl e
       | Inr (m, st0) \<Rightarrow> Inr (m, (fst st, snd st @ snd st0)))" for b st
    unfolding mr_def by (rule get_metadata_state)
  have gm: "mr a' = mr a"
    unfolding mr_def by (rule get_metadata_cong) (simp add: a' lexicalized_no_slot)
  show ?thesis
    by (auto simp: load_synset_def start_ev_def next_ev_def getitem_def ee me gm a' v
          get_bool_eq get_literal_eq warn_def Let_def
          split: sum.splits prod.splits option.splits)
qed

text \<open>
  Claim C7 (amended). The literal is compared after \<^verbatim>\<open>str.lower()\<close>. When the
  \<^verbatim>\<open>lexicalized\<close> text of a \<^verbatim>\<open>Sense\<close> or \<^verbatim>\<open>Synset\<close> element, lower-cased, is neither
  \<^verbatim>\<open>true\<close> nor \<^verbatim>\<open>false\<close>, \<^verbatim>\<open>_get_bool\<close> returns \<^verbatim>\<open>False\<close> and issues a diagnostic
  naming the lower-cased text. Loading the element goes on as it does for the same element
  with a text that lower-cases to \<^verbatim>\<open>false\<close>: the same error, or the same entity and the
  same cursor. So the raw text is not kept: the entity's flag is \<^verbatim>\<open>False\<close>, and the
  diagnostic is among those issued.
\<close>

theorem lexicalized_outside_vocabulary:
  assumes "map_of a ''lexicalized'' = Some v"
    and "py_lower E v \<noteq> ''true''" and "py_lower E v \<noteq> ''false''"
    and "map_of a' = (map_of a)(''lexicalized'' \<mapsto> v')" and "py_lower E v' = ''false''"
  shows
    "get_bool E v st = (False, warn (NotOneOf (py_lower E v) [''true'', ''false'']) st) \<and>
     outcome (load_sense E version (Start (Element tag a t) # evs, ws)) =
       outcome (load_sense E version (Start (Element tag a' t) # evs, ws)) \<and>
     (\<forall>s st'. load_sense E version (Start (Element tag a t) # evs, ws) = Inr (s, st') \<longrightarrow>
        \<not> sense_lexicalized s \<and>
        NotOneOf (py_lower E v) [''true'', ''false''] \<in> set (snd st')) \<and>
     outcome (load_synset E version (Start (Element tag a t) # evs, ws)) =
       outcome (load_synset E version (Start (Element tag a' t) # evs, ws)) \<and>
     (\<forall>s st'. load_synset E version (Start (Element tag a t) # evs, ws) = Inr (s, st') \<longrightarrow>
        \<not> synset_lexicalized s \<and>
        NotOneOf (py_lower E v) [''true'', ''false''] \<in> set (snd st'))"
  using load_sense_lexicalized [OF assms, of version tag t evs ws]
    load_synset_lexicalized [OF assms, of version tag t evs ws] assms(2,3)
  by (simp add: get_bool_eq)

lemma load_sense_bogus:
  "load_sense E0 ''1.0''
     ([Start (Element ''Sense'' [(''id'', ''s1''), (''synset'', ''ss''), (''lexicalized'', v)] None),
       End (Element ''Sense'' [(''id'', ''s1''), (''synset'', ''ss''), (''lexicalized'', v)] None)],
      []) =
   Inr ((sense_of ''s1'')\<lparr>sense_lexicalized := (ascii_lower v = ''true'')\<rparr>,
        ([], if ascii_lower v = ''true'' \<or> ascii_lower v = ''false'' then []
             else [NotOneOf (ascii_lower v) [''true'', ''false'']]))"
  by (simp add: load_sense_def start_ev_def end_ev_def next_ev_def getitem_def
        load_sense_relations.simps load_examples.simps load_counts.simps starts_def
        get_bool_def get_literal_def get_metadata_def DC_QNAME_PAIRS_def DC_URIS_def DC_ATTRS_def
        E0_def sense_of_def warn_def)

lemma ascii_lower_examples:
  "ascii_lower ''bogus'' = ''bogus''" "ascii_lower ''false'' = ''false''"
  "ascii_lower ''TRUE'' = ''true''"
  by code_simp+

lemma E0_lower: "py_lower E0 = ascii_lower"
  by (simp add: E0_def)

text \<open>
  Witness for C7: a \<^verbatim>\<open>Sense\<close> with \<^verbatim>\<open>lexicalized="bogus"\<close> loads, unlexicalized, with the
  diagnostic.
\<close>

theorem lexicalized_outside_vocabulary_witness:
  "outcome (load_sense E0 ''1.0''
      (leaf_events ''Sense'' [(''id'', ''s1''), (''synset'', ''ss''), (''lexicalized'', ''bogus'')], [])) =
   Inr ((sense_of ''s1'')\<lparr>sense_lexicalized := False\<rparr>, []) \<and>
   get_bool E0 ''bogus'' ([], []) = (False, ([], [NotOneOf ''bogus'' [''true'', ''false'']]))"
  using lexicalized_outside_vocabulary [of
      "[(''id'', ''s1''), (''synset'', ''ss''), (''lexicalized'', ''bogus'')]" "''bogus''" E0
      "[(''id'', ''s1''), (''synset'', ''ss''), (''lexicalized'', ''false'')]" "''false''"
      "([], [])" "''1.0''" "''Sense''" None
      "[End (Element ''Sense'' [(''id'', ''s1''), (''synset'', ''ss''), (''lexicalized'', ''bogus'')] None)]"
      "[]"]
  by (simp add: load_sense_bogus ascii_lower_examples E0_lower get_bool_eq warn_def leaf_events_def)

text \<open>
  Counterexample to C7 as stated: the \<^verbatim>\<open>Sense\<close> loaded from \<^verbatim>\<open>lexicalized="bogus"\<close> is
  the one loaded from \<^verbatim>\<open>lexicalized="false"\<close>; the raw text is not kept. And
  \<^verbatim>\<open>lexicalized="TRUE"\<close>, which is not one of the two literals, is read as true without
  any diagnostic.
\<close>

theorem lexicalized_raw_value_counterexample:
  "load_sense E0 ''1.0''
     (leaf_events ''Sense'' [(''id'', ''s1''), (''synset'', ''ss''), (''lexicalized'', ''bogus'')], []) =
   Inr ((sense_of ''s1'')\<lparr>sense_lexicalized := False\<rparr>,
        ([], [NotOneOf ''bogus'' [''true'', ''false'']])) \<and>
   load_sense E0 ''1.0''
     (leaf_events ''Sense'' [(''id'', ''s1''), (''synset'', ''ss''), (''lexicalized'', ''false'')], []) =
   Inr ((sense_of ''s1'')\<lparr>sense_lexicalized := False\<rparr>, ([], [])) \<and>
   load_sense E0 ''1.0''
     (leaf_events ''Sense'' [(''id'', ''s1''), (''synset'', ''ss''), (''lexicalized'', ''TRUE'')], []) =
   Inr (sense_of ''s1'', ([], []))"
  by (simp add: leaf_events_def load_sense_bogus ascii_lower_examples sense_of_def)

end
